theory Spec2Isabelle
  imports
    Main
    "HOL-Library.Char_ord"
    "HOL-Library.List_Lexorder"
    "HOL-Library.Multiset"
begin

section \<open>The RAG command-line script \<^verbatim>\<open>app/open-source/main.py\<close>\<close>

text \<open>
  The script is a sequential orchestration of library calls. The embedding below keeps its
  control flow (every \<^verbatim>\<open>print\<close>, \<^verbatim>\<open>sys.exit\<close>, \<^verbatim>\<open>raise\<close> and
  \<^verbatim>\<open>try/except\<close>) and takes the third-party libraries and the operating system as
  parameters: a record of operations on an abstract world \<open>'w\<close>. Each operation may change
  the world and either returns a value or raises.

  Text is \<open>string\<close>, a list of 8-bit characters; the text handled is taken to be ASCII, so
  that a character is a Python code point.
\<close>

subsection \<open>Exceptions and process exit\<close>

text \<open>
  What a call may raise. \<open>Exception m\<close> is an instance of Python's class
  \<^verbatim>\<open>Exception\<close> whose \<^verbatim>\<open>str()\<close> is \<open>m\<close>; \<open>SystemExit n\<close> is what
  \<^verbatim>\<open>sys.exit(n)\<close> raises, which is not an instance of \<^verbatim>\<open>Exception\<close> and so
  passes through \<^verbatim>\<open>except Exception\<close>.
\<close>

datatype exc = Exception string | SystemExit int

text \<open>
  How \<^verbatim>\<open>parse_args\<close> can fail: \<open>ValueError s\<close> is raised by \<^verbatim>\<open>int(s)\<close>
  when the default of \<^verbatim>\<open>--n-ctx\<close> is computed; \<open>ArgparseError s\<close> is argparse
  rejecting the command-line value \<open>s\<close> of \<^verbatim>\<open>--n-ctx\<close> (it writes a usage message
  to standard error and exits with status 2).
\<close>

datatype parse_error = ValueError string | ArgparseError string

datatype fatal = ParseFailed parse_error | Raised exc

text \<open>
  The exit status of the interpreter: 0 when \<^verbatim>\<open>main()\<close> returns, 1 after the
  traceback of an uncaught exception, and for \<^verbatim>\<open>sys.exit(n)\<close> the low eight bits of
  \<open>n\<close> when \<open>n\<close> fits a C \<^verbatim>\<open>long\<close> (64 bits here), else 255.
\<close>

fun exit_status :: "fatal + unit \<Rightarrow> int" where
  "exit_status (Inr _) = 0"
| "exit_status (Inl (Raised (SystemExit n))) =
     (if - 9223372036854775808 \<le> n \<and> n \<le> 9223372036854775807 then n mod 256 else 255)"
| "exit_status (Inl (Raised (Exception _))) = 1"
| "exit_status (Inl (ParseFailed (ValueError _))) = 1"
| "exit_status (Inl (ParseFailed (ArgparseError _))) = 2"

subsection \<open>Python's string operations used by the script\<close>

text \<open>\<^verbatim>\<open>str.lower\<close> on ASCII text.\<close>

definition lower_char :: "char \<Rightarrow> char" where
  "lower_char c =
     (if CHR ''A'' \<le> c \<and> c \<le> CHR ''Z'' then char_of (of_char c + (32::nat)) else c)"

definition lower :: "string \<Rightarrow> string" where
  "lower s = map lower_char s"

definition endswith :: "string \<Rightarrow> string \<Rightarrow> bool" where
  "endswith s sfx \<longleftrightarrow> length sfx \<le> length s \<and> drop (length s - length sfx) s = sfx"

definition startswith :: "string \<Rightarrow> string \<Rightarrow> bool" where
  "startswith s pfx \<longleftrightarrow> take (length pfx) s = pfx"

text \<open>\<^verbatim>\<open>os.path.isabs\<close> and \<^verbatim>\<open>os.path.join\<close> of two parts, as \<^verbatim>\<open>posixpath\<close> has them.\<close>

definition isabs :: "string \<Rightarrow> bool" where
  "isabs p \<longleftrightarrow> startswith p ''/''"

definition path_join :: "string \<Rightarrow> string \<Rightarrow> string" where
  "path_join a b =
     (if startswith b ''/'' then b
      else if a = [] \<or> endswith a ''/'' then a @ b
      else a @ ''/'' @ b)"

text \<open>
  \<^verbatim>\<open>int(s)\<close> on a string, base 10. Blanks around the number are skipped (for ASCII
  text these are the six characters of C's \<^verbatim>\<open>isspace\<close>), one sign is allowed, then
  decimal digits, where single underscores may stand between digits. A number of more than
  \<open>max_str_digits\<close> digits is refused (the interpreter's default limit). \<open>None\<close> is
  \<^verbatim>\<open>ValueError\<close>.
\<close>

definition is_space :: "char \<Rightarrow> bool" where
  "is_space c \<longleftrightarrow>
     c \<in> set [CHR 0x20, CHR 0x09, CHR 0x0A, CHR 0x0B, CHR 0x0C, CHR 0x0D]"

definition strip :: "string \<Rightarrow> string" where
  "strip s = rev (dropWhile is_space (rev (dropWhile is_space s)))"

definition digit_val :: "char \<Rightarrow> nat option" where
  "digit_val c =
     (if CHR ''0'' \<le> c \<and> c \<le> CHR ''9'' then Some (of_char c - 48) else None)"

fun parse_digits :: "string \<Rightarrow> bool \<Rightarrow> nat \<Rightarrow> nat option" where
  "parse_digits [] prev acc = (if prev then Some acc else None)"
| "parse_digits (c # cs) prev acc =
     (if c = CHR ''_'' then (if prev \<and> cs \<noteq> [] then parse_digits cs False acc else None)
      else (case digit_val c of
              None \<Rightarrow> None
            | Some d \<Rightarrow> parse_digits cs True (10 * acc + d)))"

definition max_str_digits :: nat where
  "max_str_digits = 4300"

definition parse_number :: "string \<Rightarrow> nat option" where
  "parse_number ds =
     (case parse_digits ds False 0 of
        None \<Rightarrow> None
      | Some n \<Rightarrow>
          if length (filter (\<lambda>c. c \<noteq> CHR ''_'') ds) > max_str_digits then None else Some n)"

definition py_int :: "string \<Rightarrow> int option" where
  "py_int s =
     (case strip s of
        [] \<Rightarrow> None
      | c # cs \<Rightarrow>
          if c = CHR ''-'' then map_option (\<lambda>n. - int n) (parse_number cs)
          else if c = CHR ''+'' then map_option int (parse_number cs)
          else map_option int (parse_number (c # cs)))"

subsection \<open>Configuration\<close>

text \<open>
  The command line after argparse has split it: the text given for each flag, \<open>None\<close>
  for a flag that is not given. The process environment (after \<^verbatim>\<open>load_dotenv()\<close>) is a
  map from variable names to values.
\<close>

record cli =
  cli_model_path :: "string option"
  cli_pdf_dir :: "string option"
  cli_embedding_model :: "string option"
  cli_n_ctx :: "string option"
  cli_question :: "string option"
  cli_verbose :: bool

text \<open>The \<^verbatim>\<open>argparse.Namespace\<close> that \<^verbatim>\<open>parse_args\<close> returns.\<close>

record args =
  model_path :: "string option"
  pdf_dir :: string
  embedding_model :: string
  n_ctx :: int
  question :: "string option"
  verbose :: bool

definition getenv :: "(string \<rightharpoonup> string) \<Rightarrow> string \<Rightarrow> string \<Rightarrow> string" where
  "getenv environ k d = (case environ k of None \<Rightarrow> d | Some v \<Rightarrow> v)"

definition flag_or :: "'a option \<Rightarrow> 'a \<Rightarrow> 'a" where
  "flag_or given d = (case given of None \<Rightarrow> d | Some v \<Rightarrow> v)"

text \<open>
  \<^verbatim>\<open>parse_args\<close>: the defaults are computed while the parser is built, so
  \<^verbatim>\<open>int(os.getenv("N_CTX", "4096"))\<close> runs (and may raise) before the command line is
  read; a value given for \<^verbatim>\<open>--n-ctx\<close> goes through \<^verbatim>\<open>type=int\<close>.
\<close>

definition parse_args :: "(string \<rightharpoonup> string) \<Rightarrow> cli \<Rightarrow> parse_error + args" where
  "parse_args environ c =
     (case py_int (getenv environ ''N_CTX'' ''4096'') of
        None \<Rightarrow> Inl (ValueError (getenv environ ''N_CTX'' ''4096''))
      | Some d \<Rightarrow>
          (case (case cli_n_ctx c of None \<Rightarrow> Inr d
                 | Some raw \<Rightarrow> (case py_int raw of
                                None \<Rightarrow> Inl (ArgparseError raw)
                              | Some n \<Rightarrow> Inr n)) of
             Inl e \<Rightarrow> Inl e
           | Inr n \<Rightarrow>
               Inr \<lparr> model_path =
                       (case cli_model_path c of
                          None \<Rightarrow> environ ''MODEL_PATH''
                        | Some v \<Rightarrow> Some v),
                     pdf_dir = flag_or (cli_pdf_dir c) (getenv environ ''PDF_DIR'' ''./pdf''),
                     embedding_model =
                       flag_or (cli_embedding_model c)
                         (getenv environ ''EMBEDDING_MODEL'' ''BAAI/bge-small-en-v1.5''),
                     n_ctx = n,
                     question =
                       (case cli_question c of
                          None \<Rightarrow> environ ''QUESTION''
                        | Some v \<Rightarrow> Some v),
                     verbose = cli_verbose c \<rparr>))"

subsection \<open>Collaborators, world and trace\<close>

text \<open>A LangChain \<^verbatim>\<open>Document\<close>, a \<^verbatim>\<open>PromptTemplate\<close> and a text splitter.\<close>

record document =
  page_content :: string
  metadata :: "(string \<times> string) list"

record prompt_template =
  template :: string
  input_variables :: "string list"

record text_splitter =
  chunk_size :: nat
  chunk_overlap :: nat

definition RecursiveCharacterTextSplitter :: "nat \<Rightarrow> nat \<Rightarrow> text_splitter" where
  "RecursiveCharacterTextSplitter cs co = \<lparr> chunk_size = cs, chunk_overlap = co \<rparr>"

text \<open>
  What \<^verbatim>\<open>rag.invoke\<close> returns, as far as the script looks at it: \<open>result\<close> is
  \<open>Some r\<close> when the value is a dict with the key \<^verbatim>\<open>"result"\<close> whose value prints as
  \<open>r\<close>; \<open>shown\<close> is how the value itself prints.
\<close>

record rag_output =
  result :: "string option"
  shown :: string

text \<open>
  The operations of the libraries and of the file system. \<open>walk\<close> is
  \<^verbatim>\<open>os.walk\<close>: the list of (dirpath, dirnames, filenames).
\<close>

record ('w, 'llm, 'emb, 'db, 'rag) env =
  path_exists :: "string \<Rightarrow> 'w \<Rightarrow> bool"
  path_isdir :: "string \<Rightarrow> 'w \<Rightarrow> bool"
  walk :: "string \<Rightarrow> 'w \<Rightarrow> (string \<times> string list \<times> string list) list"
  llama_cpp :: "string option \<Rightarrow> int \<Rightarrow> bool \<Rightarrow> 'w \<Rightarrow> (exc + 'llm) \<times> 'w"
  load_and_split :: "string \<Rightarrow> 'w \<Rightarrow> (exc + document list) \<times> 'w"
  split_documents :: "text_splitter \<Rightarrow> document list \<Rightarrow> 'w \<Rightarrow> (exc + document list) \<times> 'w"
  hf_embeddings :: "string \<Rightarrow> 'w \<Rightarrow> (exc + 'emb) \<times> 'w"
  faiss_from_texts :: "string list \<Rightarrow> 'emb \<Rightarrow> 'w \<Rightarrow> (exc + 'db) \<times> 'w"
  retrieval_qa :: "'llm \<Rightarrow> 'db \<Rightarrow> prompt_template \<Rightarrow> bool \<Rightarrow> 'w \<Rightarrow> (exc + 'rag) \<times> 'w"
  invoke :: "'rag \<Rightarrow> string option \<Rightarrow> 'w \<Rightarrow> (exc + rag_output) \<times> 'w"

text \<open>
  The trace of a run: every \<^verbatim>\<open>print\<close>, tagged with the statement of the source that
  made it, and every call of a collaborator, in the order they happen.
\<close>

datatype stmt = ErrorMsg | Header | SkipNotice | Answer | Fallback | Failure | NoPdfs

datatype 'llm call =
    LlamaCpp "string option" int bool
  | PyPDFLoader string
  | SplitDocuments text_splitter
  | HuggingFaceEmbeddings string
  | FAISS "string list"
  | RetrievalQA 'llm prompt_template bool
  | Invoke "string option"

datatype 'llm event = Print stmt string | Call "'llm call"

record ('w, 'llm) state =
  world :: 'w
  trace :: "'llm event list"

definition print :: "stmt \<Rightarrow> string \<Rightarrow> ('w, 'llm) state \<Rightarrow> ('w, 'llm) state" where
  "print k t s = s\<lparr> trace := trace s @ [Print k t] \<rparr>"

definition call ::
  "'llm call \<Rightarrow> ('w \<Rightarrow> (exc + 'a) \<times> 'w) \<Rightarrow> ('w, 'llm) state \<Rightarrow> (exc + 'a) \<times> ('w, 'llm) state"
where
  "call c f s =
     (case f (world s) of
        (r, w') \<Rightarrow> (r, \<lparr> world = w', trace = trace s @ [Call c] \<rparr>))"

subsection \<open>The functions of the script\<close>

definition validate_inputs ::
  "('w, 'llm, 'emb, 'db, 'rag) env \<Rightarrow> string option \<Rightarrow> string \<Rightarrow> string option \<Rightarrow>
   ('w, 'llm) state \<Rightarrow> (exc + unit) \<times> ('w, 'llm) state"
where
  "validate_inputs E mp pd q s =
     (case mp of
        None \<Rightarrow>
          (Inl (SystemExit 2),
           print ErrorMsg ''ERROR: --model-path is required (or set MODEL_PATH in .env)'' s)
      | Some m \<Rightarrow>
          if m = [] then
            (Inl (SystemExit 2),
             print ErrorMsg ''ERROR: --model-path is required (or set MODEL_PATH in .env)'' s)
          else if \<not> isabs m then
            (Inl (SystemExit 2),
             print ErrorMsg ''ERROR: --model-path must be an absolute path to the GGUF file'' s)
          else if \<not> path_exists E m (world s) then
            (Inl (SystemExit 2), print ErrorMsg (''ERROR: model file not found: '' @ m) s)
          else if \<not> path_isdir E pd (world s) then
            (Inl (SystemExit 2), print ErrorMsg (''ERROR: pdf directory not found: '' @ pd) s)
          else if q = None \<or> q = Some [] then
            (Inl (SystemExit 2),
             print ErrorMsg ''ERROR: --question is required (or set QUESTION in .env)'' s)
          else (Inr (), s))"

definition build_llm ::
  "('w, 'llm, 'emb, 'db, 'rag) env \<Rightarrow> string option \<Rightarrow> int \<Rightarrow> bool \<Rightarrow>
   ('w, 'llm) state \<Rightarrow> (exc + 'llm) \<times> ('w, 'llm) state"
where
  "build_llm E mp n v s = call (LlamaCpp mp n v) (llama_cpp E mp n v) s"

definition build_prompt :: prompt_template where
  "build_prompt =
     \<lparr> template =
         ''<|user|>'' @ [CHR 0x0A] @
         ''Relevant information:'' @ [CHR 0x0A] @ ''{context}'' @ [CHR 0x0A, CHR 0x0A] @
         ''Provide a concise answer the following question using the relevant information provided above:''
           @ [CHR 0x0A] @
         ''{question}<|end|>'' @ [CHR 0x0A] @ ''<|assistant|>'',
       input_variables = [''context'', ''question''] \<rparr>"

definition extract_text_chunks_from_pdf ::
  "('w, 'llm, 'emb, 'db, 'rag) env \<Rightarrow> string \<Rightarrow> ('w, 'llm) state \<Rightarrow>
   (exc + string list) \<times> ('w, 'llm) state"
where
  "extract_text_chunks_from_pdf E pdf_path s =
     (case call (PyPDFLoader pdf_path) (load_and_split E pdf_path) s of
        (Inl e, s1) \<Rightarrow> (Inl e, s1)
      | (Inr pages, s1) \<Rightarrow>
          (let text_splitter = RecursiveCharacterTextSplitter 500 200 in
           case call (SplitDocuments text_splitter) (split_documents E text_splitter pages) s1 of
             (Inl e, s2) \<Rightarrow> (Inl e, s2)
           | (Inr texts, s2) \<Rightarrow> (Inr (map page_content texts), s2)))"

text \<open>The body of the \<^verbatim>\<open>try\<close> statement of \<^verbatim>\<open>run_rag_over_pdf\<close>.\<close>

definition try_body ::
  "('w, 'llm, 'emb, 'db, 'rag) env \<Rightarrow> string \<Rightarrow> string option \<Rightarrow> 'llm \<Rightarrow> string \<Rightarrow>
   prompt_template \<Rightarrow> bool \<Rightarrow> ('w, 'llm) state \<Rightarrow> (exc + unit) \<times> ('w, 'llm) state"
where
  "try_body E pdf_path q llm embedding_model_name prompt v s =
     (case extract_text_chunks_from_pdf E pdf_path s of
        (Inl e, s1) \<Rightarrow> (Inl e, s1)
      | (Inr text_chunks, s1) \<Rightarrow>
          if text_chunks = [] then (Inr (), print SkipNotice ''No text extracted; skipping.'' s1)
          else
            (case call (HuggingFaceEmbeddings embedding_model_name)
                    (hf_embeddings E embedding_model_name) s1 of
               (Inl e, s2) \<Rightarrow> (Inl e, s2)
             | (Inr embeddings, s2) \<Rightarrow>
                 (case call (FAISS text_chunks) (faiss_from_texts E text_chunks embeddings) s2 of
                    (Inl e, s3) \<Rightarrow> (Inl e, s3)
                  | (Inr db, s3) \<Rightarrow>
                      (case call (RetrievalQA llm prompt v) (retrieval_qa E llm db prompt v) s3 of
                         (Inl e, s4) \<Rightarrow> (Inl e, s4)
                       | (Inr rag, s4) \<Rightarrow>
                           (case call (Invoke q) (invoke E rag q) s4 of
                              (Inl e, s5) \<Rightarrow> (Inl e, s5)
                            | (Inr out, s5) \<Rightarrow>
                                (case result out of
                                   Some r \<Rightarrow> (Inr (), print Answer r s5)
                                 | None \<Rightarrow> (Inr (), print Fallback (shown out) s5)))))))"

definition header :: "string \<Rightarrow> string" where
  "header pdf_path = [CHR 0x0A] @ ''Processing File: '' @ pdf_path"

definition failed_line :: "string \<Rightarrow> string \<Rightarrow> string" where
  "failed_line pdf_path m = ''Failed to process '' @ pdf_path @ '': '' @ m"

definition run_rag_over_pdf ::
  "('w, 'llm, 'emb, 'db, 'rag) env \<Rightarrow> string \<Rightarrow> string option \<Rightarrow> 'llm \<Rightarrow> string \<Rightarrow>
   prompt_template \<Rightarrow> bool \<Rightarrow> ('w, 'llm) state \<Rightarrow> (exc + unit) \<times> ('w, 'llm) state"
where
  "run_rag_over_pdf E pdf_path q llm embedding_model_name prompt v s =
     (case try_body E pdf_path q llm embedding_model_name prompt v
             (print Header (header pdf_path) s) of
        (Inr u, s1) \<Rightarrow> (Inr u, s1)
      | (Inl (Exception m), s1) \<Rightarrow> (Inr (), print Failure (failed_line pdf_path m) s1)
      | (Inl (SystemExit n), s1) \<Rightarrow> (Inl (SystemExit n), s1))"

text \<open>The discovery loop of \<^verbatim>\<open>main\<close> over the result of \<^verbatim>\<open>os.walk\<close>.\<close>

definition is_pdf_name :: "string \<Rightarrow> bool" where
  "is_pdf_name name \<longleftrightarrow> endswith (lower name) ''.pdf''"

definition discover :: "(string \<times> string list \<times> string list) list \<Rightarrow> string list" where
  "discover triples =
     concat (map (\<lambda>(dirpath, dirnames, filenames).
                    map (path_join dirpath) (filter is_pdf_name filenames)) triples)"

text \<open>The \<^verbatim>\<open>for path in pdf_paths\<close> loop of \<^verbatim>\<open>main\<close>.\<close>

fun for_paths ::
  "('w, 'llm, 'emb, 'db, 'rag) env \<Rightarrow> string option \<Rightarrow> 'llm \<Rightarrow> string \<Rightarrow>
   prompt_template \<Rightarrow> bool \<Rightarrow> string list \<Rightarrow> ('w, 'llm) state \<Rightarrow>
   (exc + unit) \<times> ('w, 'llm) state"
where
  "for_paths E q llm emb prompt v [] s = (Inr (), s)"
| "for_paths E q llm emb prompt v (path # paths) s =
     (case run_rag_over_pdf E path q llm emb prompt v s of
        (Inl e, s1) \<Rightarrow> (Inl e, s1)
      | (Inr u, s1) \<Rightarrow> for_paths E q llm emb prompt v paths s1)"

definition main ::
  "('w, 'llm, 'emb, 'db, 'rag) env \<Rightarrow> (string \<rightharpoonup> string) \<Rightarrow> cli \<Rightarrow> ('w, 'llm) state \<Rightarrow>
   (fatal + unit) \<times> ('w, 'llm) state"
where
  "main E environ c s =
     (case parse_args environ c of
        Inl e \<Rightarrow> (Inl (ParseFailed e), s)
      | Inr a \<Rightarrow>
          (case validate_inputs E (model_path a) (pdf_dir a) (question a) s of
             (Inl e, s1) \<Rightarrow> (Inl (Raised e), s1)
           | (Inr u, s1) \<Rightarrow>
               (case build_llm E (model_path a) (n_ctx a) (verbose a) s1 of
                  (Inl e, s2) \<Rightarrow> (Inl (Raised e), s2)
                | (Inr llm, s2) \<Rightarrow>
                    (let prompt = build_prompt;
                         pdf_paths = sort (discover (walk E (pdf_dir a) (world s2)))
                     in if pdf_paths = [] then
                          (Inl (Raised (SystemExit 0)),
                           print NoPdfs (''No PDFs found in '' @ pdf_dir a) s2)
                        else
                          (case for_paths E (question a) llm (embedding_model a) prompt
                                  (verbose a) pdf_paths s2 of
                             (Inl e, s3) \<Rightarrow> (Inl (Raised e), s3)
                           | (Inr u, s3) \<Rightarrow> (Inr u, s3))))))"

text \<open>A run of the script starts with an empty trace.\<close>

definition start :: "'w \<Rightarrow> ('w, 'llm) state" where
  "start w = \<lparr> world = w, trace = [] \<rparr>"

subsection \<open>Observations on a trace\<close>

text \<open>The texts printed by one statement of the source, in order.\<close>

fun printed :: "stmt \<Rightarrow> 'llm event list \<Rightarrow> string list" where
  "printed k [] = []"
| "printed k (Print k' t # evs) = (if k' = k then t # printed k evs else printed k evs)"
| "printed k (Call c # evs) = printed k evs"

fun is_llm_load :: "'llm event \<Rightarrow> bool" where
  "is_llm_load (Call (LlamaCpp mp n v)) = True"
| "is_llm_load ev = False"

definition llm_loads :: "'llm event list \<Rightarrow> nat" where
  "llm_loads tr = length (filter is_llm_load tr)"

text \<open>An event that hands a generation model to a chain hands over the handle \<open>h\<close>.\<close>

fun uses_llm :: "'llm \<Rightarrow> 'llm event \<Rightarrow> bool" where
  "uses_llm h (Call (RetrievalQA h' pr v)) = (h' = h)"
| "uses_llm h ev = True"

text \<open>
  The events one document's step may add after its header: the four outcome lines and the
  calls of the per-document collaborators, the chain built on the handle \<open>h\<close>.
\<close>

fun doc_event :: "'llm \<Rightarrow> 'llm event \<Rightarrow> bool" where
  "doc_event h (Print k t) = (k = SkipNotice \<or> k = Answer \<or> k = Fallback \<or> k = Failure)"
| "doc_event h (Call (LlamaCpp mp n v)) = False"
| "doc_event h (Call (RetrievalQA h' pr v)) = (h' = h)"
| "doc_event h (Call c) = True"

fun loop_event :: "'llm \<Rightarrow> 'llm event \<Rightarrow> bool" where
  "loop_event h (Print k t) = (k \<noteq> ErrorMsg \<and> k \<noteq> NoPdfs)"
| "loop_event h (Call (LlamaCpp mp n v)) = False"
| "loop_event h (Call (RetrievalQA h' pr v)) = (h' = h)"
| "loop_event h (Call c) = True"

subsection \<open>Assumptions on the collaborators\<close>

text \<open>
  The per-document collaborators raise instances of \<^verbatim>\<open>Exception\<close> only: none of
  them ends the process by \<^verbatim>\<open>SystemExit\<close>.
\<close>

definition raises_only_exceptions :: "('w, 'llm, 'emb, 'db, 'rag) env \<Rightarrow> bool" where
  "raises_only_exceptions E \<longleftrightarrow>
     (\<forall>p w n. fst (load_and_split E p w) \<noteq> Inl (SystemExit n)) \<and>
     (\<forall>ts ds w n. fst (split_documents E ts ds w) \<noteq> Inl (SystemExit n)) \<and>
     (\<forall>nm w n. fst (hf_embeddings E nm w) \<noteq> Inl (SystemExit n)) \<and>
     (\<forall>ts e w n. fst (faiss_from_texts E ts e w) \<noteq> Inl (SystemExit n)) \<and>
     (\<forall>h d pr v w n. fst (retrieval_qa E h d pr v w) \<noteq> Inl (SystemExit n)) \<and>
     (\<forall>r q w n. fst (invoke E r q w) \<noteq> Inl (SystemExit n))"

text \<open>
  The contract of the splitter's \<^verbatim>\<open>chunk_size\<close>: no document it returns is longer
  than the splitter's chunk size.
\<close>

definition respects_chunk_size :: "('w, 'llm, 'emb, 'db, 'rag) env \<Rightarrow> bool" where
  "respects_chunk_size E \<longleftrightarrow>
     (\<forall>ts ds w. case fst (split_documents E ts ds w) of
                  Inl e \<Rightarrow> True
                | Inr texts \<Rightarrow> list_all (\<lambda>d. length (page_content d) \<le> chunk_size ts) texts)"

subsection \<open>Example runs\<close>

text \<open>
  A directory \<^verbatim>\<open>./pdf\<close> holding \<^verbatim>\<open>b.PDF\<close> (unreadable), \<^verbatim>\<open>notes.txt\<close>,
  \<^verbatim>\<open>scan.pdf\<close> (no extractable text) and \<^verbatim>\<open>sub/a.pdf\<close>. The world counts the
  calls made; a handle is the name of what was loaded. The splitter cuts each page into
  pieces of at most \<open>chunk_size\<close> characters.
\<close>

fun pieces :: "nat \<Rightarrow> nat \<Rightarrow> string \<Rightarrow> string list" where
  "pieces 0 n t = []"
| "pieces (Suc fuel) n t =
     (if t = [] \<or> n = 0 then [] else take n t # pieces fuel n (drop n t))"

definition demo_split :: "text_splitter \<Rightarrow> document list \<Rightarrow> document list" where
  "demo_split ts ds =
     concat (map (\<lambda>d. map (\<lambda>t. \<lparr> page_content = t, metadata = metadata d \<rparr>)
                         (pieces (length (page_content d)) (chunk_size ts) (page_content d))) ds)"

definition demo_env :: "(nat, string, string, string list, string) env" where
  "demo_env =
     \<lparr> path_exists = (\<lambda>p w. p = ''/models/m.gguf''),
       path_isdir = (\<lambda>p w. p = ''./pdf''),
       walk = (\<lambda>p w. [(''./pdf'', [''sub''], [''b.PDF'', ''notes.txt'', ''scan.pdf'']),
                       (''./pdf/sub'', [], [''a.pdf''])]),
       llama_cpp = (\<lambda>mp n v w. (Inr ''llm'', Suc w)),
       load_and_split =
         (\<lambda>p w. (if p = ''./pdf/b.PDF'' then Inl (Exception ''EOF marker not found'')
                  else if p = ''./pdf/scan.pdf'' then Inr []
                  else Inr [\<lparr> page_content = ''hello world'', metadata = [] \<rparr>], Suc w)),
       split_documents = (\<lambda>ts ds w. (Inr (demo_split ts ds), Suc w)),
       hf_embeddings = (\<lambda>nm w. (Inr nm, Suc w)),
       faiss_from_texts = (\<lambda>ts e w. (Inr ts, Suc w)),
       retrieval_qa = (\<lambda>h d pr v w. (Inr h, Suc w)),
       invoke = (\<lambda>r q w. (Inr \<lparr> result = Some ''42'', shown = ''{}'' \<rparr>, Suc w)) \<rparr>"

definition demo_cli :: cli where
  "demo_cli =
     \<lparr> cli_model_path = Some ''/models/m.gguf'', cli_pdf_dir = None,
       cli_embedding_model = None, cli_n_ctx = None, cli_question = Some ''What?'',
       cli_verbose = False \<rparr>"

definition demo_args :: args where
  "demo_args =
     \<lparr> model_path = Some ''/models/m.gguf'', pdf_dir = ''./pdf'',
       embedding_model = ''BAAI/bge-small-en-v1.5'', n_ctx = 4096,
       question = Some ''What?'', verbose = False \<rparr>"

text \<open>The same, with an embedding model that cannot be loaded.\<close>

definition no_embeddings_env :: "(nat, string, string, string list, string) env" where
  "no_embeddings_env =
     demo_env\<lparr> hf_embeddings := (\<lambda>nm w. (Inl (Exception ''model not found''), Suc w)),
               walk := (\<lambda>p w. [(''./pdf'', [], [''a.pdf'', ''c.pdf''])]) \<rparr>"

text \<open>The same, with a directory that holds no PDF.\<close>

definition no_pdf_env :: "(nat, string, string, string list, string) env" where
  "no_pdf_env = demo_env\<lparr> walk := (\<lambda>p w. [(''./pdf'', [], [''notes.txt''])]) \<rparr>"

text \<open>An environment whose \<^verbatim>\<open>N_CTX\<close> is not an integer literal, and one where it is 0.\<close>

definition bad_ctx_environ :: "string \<rightharpoonup> string" where
  "bad_ctx_environ = [''N_CTX'' \<mapsto> ''4k'']"

definition zero_ctx_environ :: "string \<rightharpoonup> string" where
  "zero_ctx_environ = [''N_CTX'' \<mapsto> ''0'']"

text \<open>
  A directory holding \<^verbatim>\<open>a.pdf\<close> and \<^verbatim>\<open>c.pdf\<close>, where the \<open>k\<close>-th collaborator
  of a document's step raises: 1 the loader, 2 the splitter, 3 the embedding model, 4 the
  index, 5 the chain, 6 the generation.
\<close>

definition failing_env :: "nat \<Rightarrow> (nat, string, string, string list, string) env" where
  "failing_env k =
     \<lparr> path_exists = (\<lambda>p w. p = ''/models/m.gguf''),
       path_isdir = (\<lambda>p w. p = ''./pdf''),
       walk = (\<lambda>p w. [(''./pdf'', [], [''a.pdf'', ''c.pdf''])]),
       llama_cpp = (\<lambda>mp n v w. (Inr ''llm'', Suc w)),
       load_and_split =
         (\<lambda>p w. (if k = 1 then Inl (Exception ''EOF marker not found'')
                  else Inr [\<lparr> page_content = ''hello world'', metadata = [] \<rparr>], Suc w)),
       split_documents =
         (\<lambda>ts ds w. (if k = 2 then Inl (Exception ''cannot split'')
                     else Inr (demo_split ts ds), Suc w)),
       hf_embeddings =
         (\<lambda>nm w. (if k = 3 then Inl (Exception ''model not found'') else Inr nm, Suc w)),
       faiss_from_texts =
         (\<lambda>ts e w. (if k = 4 then Inl (Exception ''index not built'') else Inr ts, Suc w)),
       retrieval_qa =
         (\<lambda>h d pr v w. (if k = 5 then Inl (Exception ''chain not built'') else Inr h, Suc w)),
       invoke =
         (\<lambda>r q w. (if k = 6 then Inl (Exception ''context window exceeded'')
                    else Inr \<lparr> result = Some ''42'', shown = ''{}'' \<rparr>, Suc w)) \<rparr>"

section \<open>Properties\<close>

subsection \<open>The trace of a document step and of the loop\<close>

lemma printed_append: "printed k (xs @ ys) = printed k xs @ printed k ys"
  by (induction k xs rule: printed.induct) auto

lemma call_eq:
  "call c f s = (fst (f (world s)), \<lparr> world = snd (f (world s)), trace = trace s @ [Call c] \<rparr>)"
  by (simp add: call_def split: prod.splits)

lemma trace_print: "trace (print k t s) = trace s @ [Print k t]"
  by (simp add: print_def)

lemma world_print: "world (print k t s) = world s"
  by (simp add: print_def)

lemma extract_trace:
  assumes "extract_text_chunks_from_pdf E p s = (r, s')"
  shows "\<exists>evs. trace s' = trace s @ evs \<and> list_all (doc_event h) evs \<and> printed k evs = []"
  using assms
  by (auto simp: extract_text_chunks_from_pdf_def call_eq Let_def split: sum.splits prod.splits)

lemma extract_no_exit:
  assumes "raises_only_exceptions E" "extract_text_chunks_from_pdf E p s = (Inl e, s')"
  shows "\<exists>m. e = Exception m"
proof (cases e)
  case (Exception m) then show ?thesis by simp
next
  case (SystemExit n)
  with assms show ?thesis
    unfolding raises_only_exceptions_def
    by (auto simp: extract_text_chunks_from_pdf_def call_eq Let_def split: sum.splits prod.splits)
qed


lemma try_body_trace:
  assumes "try_body E p q h emb pr v s = (r, s')"
  shows "\<exists>evs. trace s' = trace s @ evs \<and> list_all (doc_event h) evs
            \<and> printed Header evs = [] \<and> printed Failure evs = []"
proof (cases "extract_text_chunks_from_pdf E p s")
  case (Pair r1 s1)
  from extract_trace[OF Pair, of h Header] extract_trace[OF Pair, of h Failure]
  obtain evs where evs: "trace s1 = trace s @ evs" "list_all (doc_event h) evs"
    "printed Header evs = []" "printed Failure evs = []"
    by auto
  show ?thesis
  proof (cases r1)
    case (Inl e)
    with assms Pair evs show ?thesis by (auto simp: try_body_def)
  next
    case (Inr chunks)
    with assms Pair evs show ?thesis
      by (auto simp: try_body_def call_eq trace_print printed_append
               split: sum.splits prod.splits if_splits option.splits)
  qed
qed

lemma try_body_no_exit:
  assumes "raises_only_exceptions E" "try_body E p q h emb pr v s = (Inl e, s')"
  shows "\<exists>m. e = Exception m"
proof (cases e)
  case (Exception m) then show ?thesis by simp
next
  case (SystemExit n)
  have ex: "\<And>s1. extract_text_chunks_from_pdf E p s \<noteq> (Inl (SystemExit n), s1)"
    using extract_no_exit[OF assms(1)] by fastforce
  from assms(1) have r:
    "\<And>nm w. fst (hf_embeddings E nm w) \<noteq> Inl (SystemExit n)"
    "\<And>ts e w. fst (faiss_from_texts E ts e w) \<noteq> Inl (SystemExit n)"
    "\<And>h d pr v w. fst (retrieval_qa E h d pr v w) \<noteq> Inl (SystemExit n)"
    "\<And>r q w. fst (invoke E r q w) \<noteq> Inl (SystemExit n)"
    unfolding raises_only_exceptions_def by blast+
  from assms(2) SystemExit ex r show ?thesis
    by (auto simp: try_body_def call_eq split: sum.splits prod.splits if_splits option.splits)
qed

lemma run_rag_trace:
  assumes "run_rag_over_pdf E p q h emb pr v s = (r, s')"
  shows "\<exists>evs. trace s' = trace s @ Print Header (header p) # evs \<and> list_all (doc_event h) evs
            \<and> printed Header evs = []"
proof (cases "try_body E p q h emb pr v (print Header (header p) s)")
  case (Pair r1 s1)
  from try_body_trace[OF Pair]
  obtain evs where evs: "trace s1 = trace s @ Print Header (header p) # evs"
    "list_all (doc_event h) evs" "printed Header evs = []"
    by (auto simp: trace_print)
  from assms Pair evs show ?thesis
    by (auto simp: run_rag_over_pdf_def trace_print printed_append split: sum.splits exc.splits)
qed

lemma run_rag_returns:
  assumes "raises_only_exceptions E"
  shows "fst (run_rag_over_pdf E p q h emb pr v s) = Inr ()"
proof (cases "try_body E p q h emb pr v (print Header (header p) s)")
  case (Pair r1 s1)
  show ?thesis
  proof (cases r1)
    case (Inl e)
    with try_body_no_exit[OF assms] Pair obtain m where "e = Exception m" by blast
    with Pair Inl show ?thesis by (simp add: run_rag_over_pdf_def)
  next
    case (Inr u)
    with Pair show ?thesis by (simp add: run_rag_over_pdf_def)
  qed
qed

lemma doc_event_loop_event: "doc_event h ev \<Longrightarrow> loop_event h ev"
  by (cases "(h, ev)" rule: doc_event.cases) auto

lemma for_paths_trace:
  assumes "for_paths E q h emb pr v paths s = (r, s')"
  shows "\<exists>evs. trace s' = trace s @ evs \<and> list_all (loop_event h) evs"
  using assms
proof (induction paths arbitrary: s)
  case Nil
  then show ?case by simp
next
  case (Cons p paths)
  obtain r1 s1 where step: "run_rag_over_pdf E p q h emb pr v s = (r1, s1)"
    by (cases "run_rag_over_pdf E p q h emb pr v s")
  from run_rag_trace[OF step] obtain evs1 where
    e1: "trace s1 = trace s @ Print Header (header p) # evs1" "list_all (doc_event h) evs1"
    by blast
  then have l1: "list_all (loop_event h) (Print Header (header p) # evs1)"
    by (auto simp: list_all_iff doc_event_loop_event)
  show ?case
  proof (cases r1)
    case (Inl e)
    with Cons.prems step e1 l1 show ?thesis by auto
  next
    case (Inr u)
    with Cons.prems step have "for_paths E q h emb pr v paths s1 = (r, s')" by simp
    from Cons.IH[OF this] obtain evs where "trace s' = trace s1 @ evs" "list_all (loop_event h) evs"
      by blast
    with e1 l1 show ?thesis by auto
  qed
qed

lemma for_paths_headers:
  assumes "raises_only_exceptions E"
  shows "fst (for_paths E q h emb pr v paths s) = Inr () \<and>
         printed Header (trace (snd (for_paths E q h emb pr v paths s))) =
           printed Header (trace s) @ map header paths"
proof (induction paths arbitrary: s)
  case Nil
  then show ?case by simp
next
  case (Cons p paths)
  obtain r1 s1 where step: "run_rag_over_pdf E p q h emb pr v s = (r1, s1)"
    by (cases "run_rag_over_pdf E p q h emb pr v s")
  with run_rag_returns[OF assms, of p q h emb pr v s] have r1: "r1 = Inr ()" by simp
  from run_rag_trace[OF step] have
    "printed Header (trace s1) = printed Header (trace s) @ [header p]"
    by (auto simp: printed_append)
  with Cons.IH[of s1] step r1 show ?case by simp
qed

subsection \<open>Validation and entry into the run\<close>

lemma validate_inputs_ok:
  assumes "fst (validate_inputs E mp pd q s) = Inr ()"
  shows "validate_inputs E mp pd q s = (Inr (), s)"
  using assms by (auto simp: validate_inputs_def split: option.splits if_splits)

lemma validate_inputs_ok_iff:
  "fst (validate_inputs E mp pd q s) = Inr () \<longleftrightarrow>
     (\<exists>m t. mp = Some m \<and> m \<noteq> [] \<and> isabs m \<and> path_exists E m (world s) \<and>
            path_isdir E pd (world s) \<and> q = Some t \<and> t \<noteq> [])"
  by (auto simp: validate_inputs_def split: option.splits if_splits)

lemma validate_inputs_fail:
  assumes "fst (validate_inputs E mp pd q s) \<noteq> Inr ()"
  shows "\<exists>msg. validate_inputs E mp pd q s = (Inl (SystemExit 2), print ErrorMsg msg s)
               \<and> startswith msg ''ERROR:''"
  using assms by (auto simp: validate_inputs_def startswith_def split: option.splits if_splits)

lemma main_after_validation:
  assumes "parse_args environ c = Inr a"
      and "fst (validate_inputs E (model_path a) (pdf_dir a) (question a) (start w)) = Inr ()"
  shows "main E environ c (start w) =
           (case llama_cpp E (model_path a) (n_ctx a) (verbose a) w of
              (Inl e, w1) \<Rightarrow>
                (Inl (Raised e),
                 \<lparr> world = w1, trace = [Call (LlamaCpp (model_path a) (n_ctx a) (verbose a))] \<rparr>)
            | (Inr llm, w1) \<Rightarrow>
                if sort (discover (walk E (pdf_dir a) w1)) = [] then
                  (Inl (Raised (SystemExit 0)),
                   \<lparr> world = w1,
                     trace = [Call (LlamaCpp (model_path a) (n_ctx a) (verbose a)),
                              Print NoPdfs (''No PDFs found in '' @ pdf_dir a)] \<rparr>)
                else
                  (case for_paths E (question a) llm (embedding_model a) build_prompt (verbose a)
                          (sort (discover (walk E (pdf_dir a) w1)))
                          \<lparr> world = w1,
                            trace = [Call (LlamaCpp (model_path a) (n_ctx a) (verbose a))] \<rparr> of
                     (Inl e, s3) \<Rightarrow> (Inl (Raised e), s3)
                   | (Inr u, s3) \<Rightarrow> (Inr u, s3)))"
  using assms validate_inputs_ok[OF assms(2)]
  by (simp add: main_def build_llm_def call_eq start_def print_def Let_def
           split: prod.splits sum.splits)

subsection \<open>Configuration errors\<close>

text \<open>
  Claim C4. Whenever the parsed configuration has no model path (absent or empty), a model
  path that is not absolute or does not exist, a PDF directory that is not an existing
  directory, or no question (absent or empty), the run prints exactly one line, which
  starts with \<^verbatim>\<open>ERROR:\<close>, and exits with status 2; nothing else happens (no model is
  loaded and no document is touched, the world is unchanged).
\<close>

theorem validation_fails_fast:
  assumes "parse_args environ c = Inr a"
      and "model_path a = None \<or> model_path a = Some [] \<or>
           (\<exists>m. model_path a = Some m \<and> (\<not> isabs m \<or> \<not> path_exists E m w)) \<or>
           \<not> path_isdir E (pdf_dir a) w \<or> question a = None \<or> question a = Some []"
  shows "\<exists>msg. main E environ c (start w) =
                 (Inl (Raised (SystemExit 2)), \<lparr> world = w, trace = [Print ErrorMsg msg] \<rparr>) \<and>
               startswith msg ''ERROR:'' \<and>
               exit_status (fst (main E environ c (start w))) = 2"
proof -
  from assms(2)
  have "fst (validate_inputs E (model_path a) (pdf_dir a) (question a) (start w)) \<noteq> Inr ()"
    unfolding validate_inputs_ok_iff by (auto simp: start_def)
  from validate_inputs_fail[OF this] obtain msg where
    "validate_inputs E (model_path a) (pdf_dir a) (question a) (start w) =
       (Inl (SystemExit 2), print ErrorMsg msg (start w))" "startswith msg ''ERROR:''"
    by blast
  with assms(1) show ?thesis
    by (auto simp: main_def print_def start_def)
qed

theorem validation_fails_fast_witness:
  "main demo_env Map.empty (demo_cli\<lparr> cli_question := None \<rparr>) (start 0) =
     (Inl (Raised (SystemExit 2)),
      \<lparr> world = 0,
        trace = [Print ErrorMsg ''ERROR: --question is required (or set QUESTION in .env)''] \<rparr>)"
proof -
  have h1: "parse_args Map.empty (demo_cli\<lparr> cli_question := None \<rparr>) =
              Inr (demo_args\<lparr> question := None \<rparr>)"
    by code_simp
  have h2: "question (demo_args\<lparr> question := None \<rparr>) = None" by simp
  from validation_fails_fast[OF h1, of demo_env 0] h2
  obtain msg where m:
    "main demo_env Map.empty (demo_cli\<lparr> cli_question := None \<rparr>) (start 0) =
       (Inl (Raised (SystemExit 2)), \<lparr> world = 0, trace = [Print ErrorMsg msg] \<rparr>)"
    by blast
  have "trace (snd (main demo_env Map.empty (demo_cli\<lparr> cli_question := None \<rparr>) (start 0))) =
          [Print ErrorMsg ''ERROR: --question is required (or set QUESTION in .env)'']"
    by code_simp
  with m show ?thesis by simp
qed

lemma py_int_rejects_separator_characters:
  "py_int [CHR 0x1F, CHR ''7''] = None \<and> py_int [CHR ''7'', CHR 0x1C] = None \<and>
   py_int ('' 7'' @ [CHR 0x0A]) = Some 7 \<and> py_int ''4_096'' = Some 4096 \<and>
   py_int ''-0'' = Some 0 \<and> py_int ''4__0'' = None \<and> py_int [] = None"
  by code_simp

text \<open>
  Claim C10. When the variable \<^verbatim>\<open>N_CTX\<close> is set to a text that \<^verbatim>\<open>int()\<close> rejects,
  \<^verbatim>\<open>parse_args\<close> raises \<^verbatim>\<open>ValueError\<close> while it builds the parser: the run ends
  there with the uncaught exception (exit status 1, not 2), whatever the command line and
  the other settings are, with nothing printed and no validation done.
\<close>

theorem invalid_n_ctx_default_raises:
  assumes "environ ''N_CTX'' = Some t" and "py_int t = None"
  shows "main E environ c (start w) = (Inl (ParseFailed (ValueError t)), start w) \<and>
         trace (snd (main E environ c (start w))) = [] \<and>
         exit_status (fst (main E environ c (start w))) = 1"
  using assms by (simp add: main_def parse_args_def getenv_def start_def)

theorem invalid_n_ctx_default_raises_witness:
  "main demo_env bad_ctx_environ demo_cli (start 0) =
     (Inl (ParseFailed (ValueError ''4k'')), start 0) \<and>
   trace (snd (main demo_env bad_ctx_environ demo_cli (start 0))) = [] \<and>
   exit_status (fst (main demo_env bad_ctx_environ demo_cli (start 0))) = 1"
proof -
  have h1: "bad_ctx_environ ''N_CTX'' = Some ''4k''" by (simp add: bad_ctx_environ_def)
  have h2: "py_int ''4k'' = None" by code_simp
  show ?thesis
    by (rule invalid_n_ctx_default_raises
          [where environ = bad_ctx_environ and t = "''4k''", OF h1 h2])
qed

subsection \<open>Discovery that finds nothing\<close>

lemma discover_empty_iff:
  "discover ts = [] \<longleftrightarrow> (\<forall>(d, ds, fs) \<in> set ts. \<forall>n \<in> set fs. \<not> is_pdf_name n)"
  by (auto simp: discover_def filter_empty_conv)

lemma sort_empty_iff: "sort xs = [] \<longleftrightarrow> xs = []"
  by (metis length_sort length_0_conv)

text \<open>
  Claim C3, as stated, fails: the generation model is loaded before the directory is
  scanned. In the run below the directory holds no PDF; the trace shows the call of
  \<^verbatim>\<open>LlamaCpp\<close> before the notice.
\<close>

theorem no_pdfs_counterexample:
  "main no_pdf_env Map.empty demo_cli (start 0) =
     (Inl (Raised (SystemExit 0)),
      \<lparr> world = 1,
        trace = [Call (LlamaCpp (Some ''/models/m.gguf'') 4096 False),
                 Print NoPdfs ''No PDFs found in ./pdf''] \<rparr>) \<and>
   llm_loads (trace (snd (main no_pdf_env Map.empty demo_cli (start 0)))) = 1"
  by code_simp

text \<open>
  Claim C3, amended. For every run that passes validation and whose generation model
  loads, if no file name reported by \<^verbatim>\<open>os.walk\<close> ends in \<^verbatim>\<open>.pdf\<close>
  (ignoring case), the run prints \<^verbatim>\<open>No PDFs found in <dir>\<close> and exits with status
  0; the generation model has been loaded once before that, and nothing else is called.
\<close>

theorem no_pdfs_exit_after_model_load:
  assumes "parse_args environ c = Inr a"
      and "fst (validate_inputs E (model_path a) (pdf_dir a) (question a) (start w)) = Inr ()"
      and "llama_cpp E (model_path a) (n_ctx a) (verbose a) w = (Inr llm, w1)"
      and "\<forall>(d, ds, fs) \<in> set (walk E (pdf_dir a) w1). \<forall>n \<in> set fs. \<not> is_pdf_name n"
  shows "main E environ c (start w) =
           (Inl (Raised (SystemExit 0)),
            \<lparr> world = w1,
              trace = [Call (LlamaCpp (model_path a) (n_ctx a) (verbose a)),
                       Print NoPdfs (''No PDFs found in '' @ pdf_dir a)] \<rparr>) \<and>
         exit_status (fst (main E environ c (start w))) = 0"
proof -
  from assms(4) have "sort (discover (walk E (pdf_dir a) w1)) = []"
    by (simp only: sort_empty_iff discover_empty_iff)
  with assms(3) show ?thesis
    by (simp add: main_after_validation[OF assms(1,2)])
qed

theorem no_pdfs_exit_after_model_load_witness:
  "main no_pdf_env Map.empty demo_cli (start 0) =
     (Inl (Raised (SystemExit 0)),
      \<lparr> world = 1,
        trace = [Call (LlamaCpp (Some ''/models/m.gguf'') 4096 False),
                 Print NoPdfs ''No PDFs found in ./pdf''] \<rparr>) \<and>
   exit_status (fst (main no_pdf_env Map.empty demo_cli (start 0))) = 0"
proof -
  have h1: "parse_args Map.empty demo_cli = Inr demo_args" by code_simp
  have h2: "fst (validate_inputs no_pdf_env (model_path demo_args) (pdf_dir demo_args)
                   (question demo_args) (start 0)) = Inr ()"
    by code_simp
  have h3: "llama_cpp no_pdf_env (model_path demo_args) (n_ctx demo_args) (verbose demo_args) 0 =
              (Inr ''llm'', 1)"
    by code_simp
  have h4: "\<forall>(d, ds, fs) \<in> set (walk no_pdf_env (pdf_dir demo_args) 1).
              \<forall>n \<in> set fs. \<not> is_pdf_name n"
    by code_simp
  from no_pdfs_exit_after_model_load[OF h1 h2 h3 h4] show ?thesis
    by (simp add: demo_args_def)
qed

subsection \<open>The context-window size\<close>

text \<open>
  Claim C9, as stated, fails: nothing checks the sign of \<^verbatim>\<open>n_ctx\<close>. With
  \<^verbatim>\<open>N_CTX=0\<close> the run passes validation, loads the model with context size 0 and
  goes on to the first document.
\<close>

theorem n_ctx_positive_counterexample:
  "parse_args zero_ctx_environ demo_cli = Inr (demo_args\<lparr> n_ctx := 0 \<rparr>) \<and>
   take 3 (trace (snd (main demo_env zero_ctx_environ demo_cli (start 0)))) =
     [Call (LlamaCpp (Some ''/models/m.gguf'') 0 False),
      Print Header (header ''./pdf/b.PDF''),
      Call (PyPDFLoader ''./pdf/b.PDF'')] \<and>
   exit_status (fst (main demo_env zero_ctx_environ demo_cli (start 0))) = 0"
  by code_simp

text \<open>
  Claim C9, amended. For every run that passes parsing and validation, the context-window
  size handed to the model loader is the integer that \<^verbatim>\<open>int()\<close> reads from the
  value of \<^verbatim>\<open>--n-ctx\<close> when the flag is given, else from \<^verbatim>\<open>N_CTX\<close> when it is
  set, else from \<^verbatim>\<open>"4096"\<close>; it is passed unchanged and unchecked. With neither the
  flag nor the variable it is 4096.
\<close>

theorem n_ctx_passed_unchecked:
  assumes "parse_args environ c = Inr a"
      and "fst (validate_inputs E (model_path a) (pdf_dir a) (question a) (start w)) = Inr ()"
  shows "py_int (flag_or (cli_n_ctx c) (getenv environ ''N_CTX'' ''4096'')) = Some (n_ctx a) \<and>
         (\<exists>rest. trace (snd (main E environ c (start w))) =
                   Call (LlamaCpp (model_path a) (n_ctx a) (verbose a)) # rest) \<and>
         (cli_n_ctx c = None \<and> environ ''N_CTX'' = None \<longrightarrow> n_ctx a = 4096)"
proof -
  have four: "py_int ''4096'' = Some 4096" by code_simp
  from assms(1) have a: "py_int (flag_or (cli_n_ctx c) (getenv environ ''N_CTX'' ''4096'')) = Some (n_ctx a)"
    by (auto simp: parse_args_def flag_or_def split: option.splits sum.splits)
  have b: "\<exists>rest. trace (snd (main E environ c (start w))) =
                   Call (LlamaCpp (model_path a) (n_ctx a) (verbose a)) # rest"
    unfolding main_after_validation[OF assms]
    by (cases "llama_cpp E (model_path a) (n_ctx a) (verbose a) w")
       (use for_paths_trace in \<open>fastforce split: sum.splits prod.splits\<close>)
  from a four have c: "cli_n_ctx c = None \<and> environ ''N_CTX'' = None \<longrightarrow> n_ctx a = 4096"
    by (auto simp: flag_or_def getenv_def)
  from a b c show ?thesis by blast
qed

theorem n_ctx_passed_unchecked_witness:
  "py_int ''0'' = Some 0 \<and>
   hd (trace (snd (main demo_env zero_ctx_environ demo_cli (start 0)))) =
     Call (LlamaCpp (Some ''/models/m.gguf'') 0 False)"
proof -
  have h1: "parse_args zero_ctx_environ demo_cli = Inr (demo_args\<lparr> n_ctx := 0 \<rparr>)" by code_simp
  have h2: "fst (validate_inputs demo_env (model_path (demo_args\<lparr> n_ctx := 0 \<rparr>))
                   (pdf_dir (demo_args\<lparr> n_ctx := 0 \<rparr>)) (question (demo_args\<lparr> n_ctx := 0 \<rparr>))
                   (start 0)) = Inr ()"
    by code_simp
  have e: "flag_or (cli_n_ctx demo_cli) (getenv zero_ctx_environ ''N_CTX'' ''4096'') = ''0''"
    by code_simp
  from n_ctx_passed_unchecked[OF h1 h2] e show ?thesis
    by (auto simp: demo_args_def)
qed

subsection \<open>Loading the generation model\<close>

lemma loop_event_not_load: "loop_event h ev \<Longrightarrow> \<not> is_llm_load ev"
  by (cases "(h, ev)" rule: loop_event.cases) auto

lemma loop_event_uses_llm: "loop_event h ev \<Longrightarrow> uses_llm h ev"
  by (cases "(h, ev)" rule: loop_event.cases) auto

lemma llm_loads_parse_failed:
  assumes "parse_args environ c = Inl e"
  shows "llm_loads (trace (snd (main E environ c (start w)))) = 0"
  using assms by (simp add: main_def start_def llm_loads_def)

lemma llm_loads_validation_failed:
  assumes "parse_args environ c = Inr a"
      and "fst (validate_inputs E (model_path a) (pdf_dir a) (question a) (start w)) \<noteq> Inr ()"
  shows "llm_loads (trace (snd (main E environ c (start w)))) = 0"
proof -
  from validate_inputs_fail[OF assms(2)] obtain msg where
    "validate_inputs E (model_path a) (pdf_dir a) (question a) (start w) =
       (Inl (SystemExit 2), print ErrorMsg msg (start w))"
    by blast
  with assms(1) show ?thesis
    by (simp add: main_def start_def print_def llm_loads_def)
qed

lemma main_trace_after_validation:
  assumes "parse_args environ c = Inr a"
      and "fst (validate_inputs E (model_path a) (pdf_dir a) (question a) (start w)) = Inr ()"
  shows "\<exists>rest. trace (snd (main E environ c (start w))) =
                  Call (LlamaCpp (model_path a) (n_ctx a) (verbose a)) # rest \<and>
                list_all (\<lambda>ev. \<not> is_llm_load ev) rest \<and>
                (\<forall>llm w1. llama_cpp E (model_path a) (n_ctx a) (verbose a) w = (Inr llm, w1) \<longrightarrow>
                           list_all (uses_llm llm) rest)"
proof (cases "llama_cpp E (model_path a) (n_ctx a) (verbose a) w")
  case (Pair r w1)
  show ?thesis
  proof (cases r)
    case (Inl e)
    with Pair show ?thesis
      by (simp add: main_after_validation[OF assms])
  next
    case (Inr llm)
    let ?s2 = "\<lparr> world = w1, trace = [Call (LlamaCpp (model_path a) (n_ctx a) (verbose a))] \<rparr>"
    let ?paths = "sort (discover (walk E (pdf_dir a) w1))"
    show ?thesis
    proof (cases "?paths = []")
      case True
      with Pair Inr show ?thesis
        by (simp add: main_after_validation[OF assms])
    next
      case False
      obtain r3 s3 where loop:
        "for_paths E (question a) llm (embedding_model a) build_prompt (verbose a) ?paths ?s2 = (r3, s3)"
        by (cases "for_paths E (question a) llm (embedding_model a) build_prompt (verbose a) ?paths ?s2")
      from for_paths_trace[OF loop] obtain evs where
        evs: "trace s3 = Call (LlamaCpp (model_path a) (n_ctx a) (verbose a)) # evs"
          "list_all (loop_event llm) evs"
        by auto
      from evs(2) have "list_all (\<lambda>ev. \<not> is_llm_load ev) evs" "list_all (uses_llm llm) evs"
        by (auto simp: list_all_iff loop_event_not_load loop_event_uses_llm)
      moreover from Pair Inr False loop
      have "trace (snd (main E environ c (start w))) = trace s3"
        by (simp add: main_after_validation[OF assms] split: sum.splits)
      ultimately show ?thesis using evs(1) Pair Inr by simp
    qed
  qed
qed

text \<open>
  Claim C8. In every run the generation model is loaded at most once. In a run that passes
  parsing and validation it is loaded exactly once, the load is the first event of the
  trace (so it comes before every document's header), no later event is a load, and every
  chain built for a document is given the handle that this load returned.
\<close>

theorem llm_loaded_once:
  "llm_loads (trace (snd (main E environ c (start w)))) \<le> 1 \<and>
   (parse_args environ c = Inr a \<and>
    fst (validate_inputs E (model_path a) (pdf_dir a) (question a) (start w)) = Inr () \<longrightarrow>
      llm_loads (trace (snd (main E environ c (start w)))) = 1 \<and>
      (\<exists>rest. trace (snd (main E environ c (start w))) =
                 Call (LlamaCpp (model_path a) (n_ctx a) (verbose a)) # rest \<and>
               list_all (\<lambda>ev. \<not> is_llm_load ev) rest \<and>
               (\<forall>llm w1. llama_cpp E (model_path a) (n_ctx a) (verbose a) w = (Inr llm, w1) \<longrightarrow>
                          list_all (uses_llm llm) rest)))"
proof -
  have one: "llm_loads (trace (snd (main E environ c (start w)))) = 1"
    if "parse_args environ c = Inr b"
      "fst (validate_inputs E (model_path b) (pdf_dir b) (question b) (start w)) = Inr ()" for b
  proof -
    from main_trace_after_validation[OF that] obtain rest where
      "trace (snd (main E environ c (start w))) =
         Call (LlamaCpp (model_path b) (n_ctx b) (verbose b)) # rest"
      "list_all (\<lambda>ev. \<not> is_llm_load ev) rest"
      by blast
    then show ?thesis
      by (simp add: llm_loads_def list_all_iff)
  qed
  have le: "llm_loads (trace (snd (main E environ c (start w)))) \<le> 1"
  proof (cases "parse_args environ c")
    case (Inl e)
    then show ?thesis by (simp add: llm_loads_parse_failed)
  next
    case (Inr b)
    show ?thesis
    proof (cases "fst (validate_inputs E (model_path b) (pdf_dir b) (question b) (start w)) = Inr ()")
      case True
      from one[OF Inr True] show ?thesis by simp
    next
      case False
      from llm_loads_validation_failed[OF Inr False] show ?thesis by simp
    qed
  qed
  show ?thesis
  proof (intro conjI impI)
    show "llm_loads (trace (snd (main E environ c (start w)))) \<le> 1" by (rule le)
  next
    assume h: "parse_args environ c = Inr a \<and>
      fst (validate_inputs E (model_path a) (pdf_dir a) (question a) (start w)) = Inr ()"
    then show "llm_loads (trace (snd (main E environ c (start w)))) = 1"
      using one by blast
  next
    assume h: "parse_args environ c = Inr a \<and>
      fst (validate_inputs E (model_path a) (pdf_dir a) (question a) (start w)) = Inr ()"
    then show "\<exists>rest. trace (snd (main E environ c (start w))) =
                 Call (LlamaCpp (model_path a) (n_ctx a) (verbose a)) # rest \<and>
               list_all (\<lambda>ev. \<not> is_llm_load ev) rest \<and>
               (\<forall>llm w1. llama_cpp E (model_path a) (n_ctx a) (verbose a) w = (Inr llm, w1) \<longrightarrow>
                          list_all (uses_llm llm) rest)"
      using main_trace_after_validation[of environ c a E w] by blast
  qed
qed

theorem llm_loaded_once_witness:
  "llm_loads (trace (snd (main demo_env Map.empty demo_cli (start 0)))) = 1 \<and>
   hd (trace (snd (main demo_env Map.empty demo_cli (start 0)))) =
     Call (LlamaCpp (Some ''/models/m.gguf'') 4096 False) \<and>
   list_all (uses_llm ''llm'') (trace (snd (main demo_env Map.empty demo_cli (start 0))))"
proof -
  have h1: "parse_args Map.empty demo_cli = Inr demo_args" by code_simp
  have h2: "fst (validate_inputs demo_env (model_path demo_args) (pdf_dir demo_args)
                   (question demo_args) (start 0)) = Inr ()"
    by code_simp
  have h3: "llama_cpp demo_env (model_path demo_args) (n_ctx demo_args) (verbose demo_args) 0 =
              (Inr ''llm'', 1)"
    by code_simp
  from llm_loaded_once[of demo_env Map.empty demo_cli 0 demo_args] h1 h2 h3
  show ?thesis
    by (auto simp: demo_args_def)
qed

subsection \<open>The per-document error boundary\<close>

lemma main_exit_status_zero:
  assumes "raises_only_exceptions E"
      and "parse_args environ c = Inr a"
      and "fst (validate_inputs E (model_path a) (pdf_dir a) (question a) (start w)) = Inr ()"
      and "fst (llama_cpp E (model_path a) (n_ctx a) (verbose a) w) = Inr llm"
  shows "exit_status (fst (main E environ c (start w))) = 0"
proof (cases "llama_cpp E (model_path a) (n_ctx a) (verbose a) w")
  case (Pair r w1)
  with assms(4) have r: "r = Inr llm" by simp
  let ?s2 = "\<lparr> world = w1, trace = [Call (LlamaCpp (model_path a) (n_ctx a) (verbose a))] \<rparr>"
  let ?paths = "sort (discover (walk E (pdf_dir a) w1))"
  from for_paths_headers[OF assms(1), of "question a" llm "embedding_model a" build_prompt
      "verbose a" ?paths ?s2]
  have "fst (for_paths E (question a) llm (embedding_model a) build_prompt (verbose a) ?paths ?s2)
          = Inr ()"
    by blast
  with Pair r show ?thesis
    by (auto simp: main_after_validation[OF assms(2,3)] split: prod.splits sum.splits)
qed

text \<open>
  Claim C1. Whichever collaborator of a document's step raises an instance of
  \<^verbatim>\<open>Exception\<close> (the loader, the splitter, the embedding model, the index, the
  chain or the generation, the earlier ones having returned), \<^verbatim>\<open>run_rag_over_pdf\<close>
  returns normally; what the step adds to the trace is the header, the calls made up to
  the one that raised, and exactly one line \<^verbatim>\<open>Failed to process <path>: <error>\<close>;
  the loop goes on with the next file from that state. When the collaborators raise
  instances of \<^verbatim>\<open>Exception\<close> only, a run that passes validation and loads the
  generation model ends with exit status 0, however many files fail.
\<close>

theorem per_document_failure_isolation:
  fixes E :: "('w, 'llm, 'emb, 'db, 'rag) env" and s :: "('w, 'llm) state"
    and path m emb :: string and q :: "string option" and llm :: 'llm
    and pr :: prompt_template and v :: bool and rest :: "string list"
  defines "ts \<equiv> \<lparr> chunk_size = 500, chunk_overlap = 200 \<rparr>"
  defines "failed \<equiv> \<lambda>evs w.
             \<lparr> world = w,
               trace = trace s @ [Print Header (CHR 0x0A # ''Processing File: '' @ path)] @ evs @
                       [Print Failure (''Failed to process '' @ path @ '': '' @ m)] \<rparr>"
  defines "isolated \<equiv> \<lambda>S.
             run_rag_over_pdf E path q llm emb pr v s = (Inr (), S) \<and>
             for_paths E q llm emb pr v (path # rest) s = for_paths E q llm emb pr v rest S"
  shows
    "(load_and_split E path (world s) = (Inl (Exception m), w_load) \<longrightarrow>
        isolated (failed [Call (PyPDFLoader path)] w_load)) \<and>
     (load_and_split E path (world s) = (Inr pages, w_load) \<and>
      split_documents E ts pages w_load = (Inl (Exception m), w_split) \<longrightarrow>
        isolated (failed [Call (PyPDFLoader path), Call (SplitDocuments ts)] w_split)) \<and>
     (load_and_split E path (world s) = (Inr pages, w_load) \<and>
      split_documents E ts pages w_load = (Inr texts, w_split) \<and> texts \<noteq> [] \<and>
      hf_embeddings E emb w_split = (Inl (Exception m), w_emb) \<longrightarrow>
        isolated (failed [Call (PyPDFLoader path), Call (SplitDocuments ts),
                          Call (HuggingFaceEmbeddings emb)] w_emb)) \<and>
     (load_and_split E path (world s) = (Inr pages, w_load) \<and>
      split_documents E ts pages w_load = (Inr texts, w_split) \<and> texts \<noteq> [] \<and>
      hf_embeddings E emb w_split = (Inr em, w_emb) \<and>
      faiss_from_texts E (map page_content texts) em w_emb = (Inl (Exception m), w_index) \<longrightarrow>
        isolated (failed [Call (PyPDFLoader path), Call (SplitDocuments ts),
                          Call (HuggingFaceEmbeddings emb),
                          Call (FAISS (map page_content texts))] w_index)) \<and>
     (load_and_split E path (world s) = (Inr pages, w_load) \<and>
      split_documents E ts pages w_load = (Inr texts, w_split) \<and> texts \<noteq> [] \<and>
      hf_embeddings E emb w_split = (Inr em, w_emb) \<and>
      faiss_from_texts E (map page_content texts) em w_emb = (Inr db, w_index) \<and>
      retrieval_qa E llm db pr v w_index = (Inl (Exception m), w_chain) \<longrightarrow>
        isolated (failed [Call (PyPDFLoader path), Call (SplitDocuments ts),
                          Call (HuggingFaceEmbeddings emb),
                          Call (FAISS (map page_content texts)),
                          Call (RetrievalQA llm pr v)] w_chain)) \<and>
     (load_and_split E path (world s) = (Inr pages, w_load) \<and>
      split_documents E ts pages w_load = (Inr texts, w_split) \<and> texts \<noteq> [] \<and>
      hf_embeddings E emb w_split = (Inr em, w_emb) \<and>
      faiss_from_texts E (map page_content texts) em w_emb = (Inr db, w_index) \<and>
      retrieval_qa E llm db pr v w_index = (Inr rag, w_chain) \<and>
      invoke E rag q w_chain = (Inl (Exception m), w_gen) \<longrightarrow>
        isolated (failed [Call (PyPDFLoader path), Call (SplitDocuments ts),
                          Call (HuggingFaceEmbeddings emb),
                          Call (FAISS (map page_content texts)),
                          Call (RetrievalQA llm pr v), Call (Invoke q)] w_gen)) \<and>
     (raises_only_exceptions E \<and> parse_args environ c = Inr a \<and>
      fst (validate_inputs E (model_path a) (pdf_dir a) (question a) (start w)) = Inr () \<and>
      fst (llama_cpp E (model_path a) (n_ctx a) (verbose a) w) = Inr llm \<longrightarrow>
        exit_status (fst (main E environ c (start w))) = 0)"
proof -
  note defs = run_rag_over_pdf_def try_body_def extract_text_chunks_from_pdf_def call_eq
    print_def header_def failed_line_def RecursiveCharacterTextSplitter_def Let_def
    ts_def failed_def isolated_def
  have st1: "load_and_split E path (world s) = (Inl (Exception m), w_load) \<longrightarrow>
        isolated (failed [Call (PyPDFLoader path)] w_load)"
    by (simp add: defs)
  have st2: "load_and_split E path (world s) = (Inr pages, w_load) \<and>
      split_documents E ts pages w_load = (Inl (Exception m), w_split) \<longrightarrow>
        isolated (failed [Call (PyPDFLoader path), Call (SplitDocuments ts)] w_split)"
    by (simp add: defs)
  have st3: "load_and_split E path (world s) = (Inr pages, w_load) \<and>
      split_documents E ts pages w_load = (Inr texts, w_split) \<and> texts \<noteq> [] \<and>
      hf_embeddings E emb w_split = (Inl (Exception m), w_emb) \<longrightarrow>
        isolated (failed [Call (PyPDFLoader path), Call (SplitDocuments ts),
                          Call (HuggingFaceEmbeddings emb)] w_emb)"
    by (simp add: defs)
  have st4: "load_and_split E path (world s) = (Inr pages, w_load) \<and>
      split_documents E ts pages w_load = (Inr texts, w_split) \<and> texts \<noteq> [] \<and>
      hf_embeddings E emb w_split = (Inr em, w_emb) \<and>
      faiss_from_texts E (map page_content texts) em w_emb = (Inl (Exception m), w_index) \<longrightarrow>
        isolated (failed [Call (PyPDFLoader path), Call (SplitDocuments ts),
                          Call (HuggingFaceEmbeddings emb),
                          Call (FAISS (map page_content texts))] w_index)"
    by (simp add: defs)
  have st5: "load_and_split E path (world s) = (Inr pages, w_load) \<and>
      split_documents E ts pages w_load = (Inr texts, w_split) \<and> texts \<noteq> [] \<and>
      hf_embeddings E emb w_split = (Inr em, w_emb) \<and>
      faiss_from_texts E (map page_content texts) em w_emb = (Inr db, w_index) \<and>
      retrieval_qa E llm db pr v w_index = (Inl (Exception m), w_chain) \<longrightarrow>
        isolated (failed [Call (PyPDFLoader path), Call (SplitDocuments ts),
                          Call (HuggingFaceEmbeddings emb),
                          Call (FAISS (map page_content texts)),
                          Call (RetrievalQA llm pr v)] w_chain)"
    by (simp add: defs)
  have st6: "load_and_split E path (world s) = (Inr pages, w_load) \<and>
      split_documents E ts pages w_load = (Inr texts, w_split) \<and> texts \<noteq> [] \<and>
      hf_embeddings E emb w_split = (Inr em, w_emb) \<and>
      faiss_from_texts E (map page_content texts) em w_emb = (Inr db, w_index) \<and>
      retrieval_qa E llm db pr v w_index = (Inr rag, w_chain) \<and>
      invoke E rag q w_chain = (Inl (Exception m), w_gen) \<longrightarrow>
        isolated (failed [Call (PyPDFLoader path), Call (SplitDocuments ts),
                          Call (HuggingFaceEmbeddings emb),
                          Call (FAISS (map page_content texts)),
                          Call (RetrievalQA llm pr v), Call (Invoke q)] w_gen)"
    by (simp add: defs)
  have ex: "raises_only_exceptions E \<and> parse_args environ c = Inr a \<and>
      fst (validate_inputs E (model_path a) (pdf_dir a) (question a) (start w)) = Inr () \<and>
      fst (llama_cpp E (model_path a) (n_ctx a) (verbose a) w) = Inr llm \<longrightarrow>
        exit_status (fst (main E environ c (start w))) = 0"
    using main_exit_status_zero[of E environ c a w llm] by blast
  from st1 st2 st3 st4 st5 st6 ex show ?thesis by (intro conjI)
qed

theorem per_document_failure_isolation_witness:
  "for_paths (failing_env 1) (Some ''What?'') ''llm'' ''bge'' build_prompt False
     [''./pdf/a.pdf'', ''./pdf/c.pdf''] (start 1) =
   for_paths (failing_env 1) (Some ''What?'') ''llm'' ''bge'' build_prompt False
     [''./pdf/c.pdf'']
     \<lparr> world = 2,
       trace = [Print Header (CHR 0x0A # ''Processing File: ./pdf/a.pdf''),
                Call (PyPDFLoader ''./pdf/a.pdf''),
                Print Failure ''Failed to process ./pdf/a.pdf: EOF marker not found''] \<rparr> \<and>
   for_paths (failing_env 2) (Some ''What?'') ''llm'' ''bge'' build_prompt False
     [''./pdf/a.pdf'', ''./pdf/c.pdf''] (start 1) =
   for_paths (failing_env 2) (Some ''What?'') ''llm'' ''bge'' build_prompt False
     [''./pdf/c.pdf'']
     \<lparr> world = 3,
       trace = [Print Header (CHR 0x0A # ''Processing File: ./pdf/a.pdf''),
                Call (PyPDFLoader ''./pdf/a.pdf''),
                Call (SplitDocuments \<lparr> chunk_size = 500, chunk_overlap = 200 \<rparr>),
                Print Failure ''Failed to process ./pdf/a.pdf: cannot split''] \<rparr> \<and>
   for_paths (failing_env 3) (Some ''What?'') ''llm'' ''bge'' build_prompt False
     [''./pdf/a.pdf'', ''./pdf/c.pdf''] (start 1) =
   for_paths (failing_env 3) (Some ''What?'') ''llm'' ''bge'' build_prompt False
     [''./pdf/c.pdf'']
     \<lparr> world = 4,
       trace = [Print Header (CHR 0x0A # ''Processing File: ./pdf/a.pdf''),
                Call (PyPDFLoader ''./pdf/a.pdf''),
                Call (SplitDocuments \<lparr> chunk_size = 500, chunk_overlap = 200 \<rparr>),
                Call (HuggingFaceEmbeddings ''bge''),
                Print Failure ''Failed to process ./pdf/a.pdf: model not found''] \<rparr> \<and>
   for_paths (failing_env 4) (Some ''What?'') ''llm'' ''bge'' build_prompt False
     [''./pdf/a.pdf'', ''./pdf/c.pdf''] (start 1) =
   for_paths (failing_env 4) (Some ''What?'') ''llm'' ''bge'' build_prompt False
     [''./pdf/c.pdf'']
     \<lparr> world = 5,
       trace = [Print Header (CHR 0x0A # ''Processing File: ./pdf/a.pdf''),
                Call (PyPDFLoader ''./pdf/a.pdf''),
                Call (SplitDocuments \<lparr> chunk_size = 500, chunk_overlap = 200 \<rparr>),
                Call (HuggingFaceEmbeddings ''bge''),
                Call (FAISS [''hello world'']),
                Print Failure ''Failed to process ./pdf/a.pdf: index not built''] \<rparr> \<and>
   for_paths (failing_env 5) (Some ''What?'') ''llm'' ''bge'' build_prompt False
     [''./pdf/a.pdf'', ''./pdf/c.pdf''] (start 1) =
   for_paths (failing_env 5) (Some ''What?'') ''llm'' ''bge'' build_prompt False
     [''./pdf/c.pdf'']
     \<lparr> world = 6,
       trace = [Print Header (CHR 0x0A # ''Processing File: ./pdf/a.pdf''),
                Call (PyPDFLoader ''./pdf/a.pdf''),
                Call (SplitDocuments \<lparr> chunk_size = 500, chunk_overlap = 200 \<rparr>),
                Call (HuggingFaceEmbeddings ''bge''),
                Call (FAISS [''hello world'']),
                Call (RetrievalQA ''llm'' build_prompt False),
                Print Failure ''Failed to process ./pdf/a.pdf: chain not built''] \<rparr> \<and>
   for_paths (failing_env 6) (Some ''What?'') ''llm'' ''bge'' build_prompt False
     [''./pdf/a.pdf'', ''./pdf/c.pdf''] (start 1) =
   for_paths (failing_env 6) (Some ''What?'') ''llm'' ''bge'' build_prompt False
     [''./pdf/c.pdf'']
     \<lparr> world = 7,
       trace = [Print Header (CHR 0x0A # ''Processing File: ./pdf/a.pdf''),
                Call (PyPDFLoader ''./pdf/a.pdf''),
                Call (SplitDocuments \<lparr> chunk_size = 500, chunk_overlap = 200 \<rparr>),
                Call (HuggingFaceEmbeddings ''bge''),
                Call (FAISS [''hello world'']),
                Call (RetrievalQA ''llm'' build_prompt False),
                Call (Invoke (Some ''What?'')),
                Print Failure ''Failed to process ./pdf/a.pdf: context window exceeded''] \<rparr> \<and>
   exit_status (fst (main (failing_env 6) Map.empty demo_cli (start 0))) = 0"
proof -
  have h1:
    "load_and_split (failing_env 1) ''./pdf/a.pdf'' (world (start 1)) = (Inl (Exception ''EOF marker not found''), 2)"
    by code_simp
  note s1 = per_document_failure_isolation
    [where E = "failing_env 1" and s = "start 1" and path = "''./pdf/a.pdf''" and m = "''EOF marker not found''" and q = "Some ''What?''" and llm = "''llm''" and emb = "''bge''" and pr = build_prompt and v = False and rest = "[''./pdf/c.pdf'']" and w_load = 2, THEN conjunct1, THEN mp, OF h1, THEN conjunct2]
  have h2:
    "load_and_split (failing_env 2) ''./pdf/a.pdf'' (world (start 1)) = (Inr [\<lparr> page_content = ''hello world'', metadata = [] \<rparr>], 2) \<and>
     split_documents (failing_env 2) \<lparr> chunk_size = 500, chunk_overlap = 200 \<rparr> [\<lparr> page_content = ''hello world'', metadata = [] \<rparr>] 2 = (Inl (Exception ''cannot split''), 3)"
    by code_simp
  note s2 = per_document_failure_isolation
    [where E = "failing_env 2" and s = "start 1" and path = "''./pdf/a.pdf''" and m = "''cannot split''" and q = "Some ''What?''" and llm = "''llm''" and emb = "''bge''" and pr = build_prompt and v = False and rest = "[''./pdf/c.pdf'']" and w_load = 2 and pages = "[\<lparr> page_content = ''hello world'', metadata = [] \<rparr>]" and w_split = 3, THEN conjunct2, THEN conjunct1, THEN mp, OF h2, THEN conjunct2]
  have h3:
    "load_and_split (failing_env 3) ''./pdf/a.pdf'' (world (start 1)) = (Inr [\<lparr> page_content = ''hello world'', metadata = [] \<rparr>], 2) \<and>
     split_documents (failing_env 3) \<lparr> chunk_size = 500, chunk_overlap = 200 \<rparr> [\<lparr> page_content = ''hello world'', metadata = [] \<rparr>] 2 = (Inr [\<lparr> page_content = ''hello world'', metadata = [] \<rparr>], 3) \<and>
     [\<lparr> page_content = ''hello world'', metadata = [] \<rparr>] \<noteq> [] \<and>
     hf_embeddings (failing_env 3) ''bge'' 3 = (Inl (Exception ''model not found''), 4)"
    by code_simp
  note s3 = per_document_failure_isolation
    [where E = "failing_env 3" and s = "start 1" and path = "''./pdf/a.pdf''" and m = "''model not found''" and q = "Some ''What?''" and llm = "''llm''" and emb = "''bge''" and pr = build_prompt and v = False and rest = "[''./pdf/c.pdf'']" and w_load = 2 and pages = "[\<lparr> page_content = ''hello world'', metadata = [] \<rparr>]" and w_split = 3 and texts = "[\<lparr> page_content = ''hello world'', metadata = [] \<rparr>]" and w_emb = 4, THEN conjunct2, THEN conjunct2, THEN conjunct1, THEN mp, OF h3, THEN conjunct2]
  have h4:
    "load_and_split (failing_env 4) ''./pdf/a.pdf'' (world (start 1)) = (Inr [\<lparr> page_content = ''hello world'', metadata = [] \<rparr>], 2) \<and>
     split_documents (failing_env 4) \<lparr> chunk_size = 500, chunk_overlap = 200 \<rparr> [\<lparr> page_content = ''hello world'', metadata = [] \<rparr>] 2 = (Inr [\<lparr> page_content = ''hello world'', metadata = [] \<rparr>], 3) \<and>
     [\<lparr> page_content = ''hello world'', metadata = [] \<rparr>] \<noteq> [] \<and>
     hf_embeddings (failing_env 4) ''bge'' 3 = (Inr ''bge'', 4) \<and>
     faiss_from_texts (failing_env 4) (map page_content [\<lparr> page_content = ''hello world'', metadata = [] \<rparr>]) ''bge'' 4 = (Inl (Exception ''index not built''), 5)"
    by code_simp
  note s4 = per_document_failure_isolation
    [where E = "failing_env 4" and s = "start 1" and path = "''./pdf/a.pdf''" and m = "''index not built''" and q = "Some ''What?''" and llm = "''llm''" and emb = "''bge''" and pr = build_prompt and v = False and rest = "[''./pdf/c.pdf'']" and w_load = 2 and pages = "[\<lparr> page_content = ''hello world'', metadata = [] \<rparr>]" and w_split = 3 and texts = "[\<lparr> page_content = ''hello world'', metadata = [] \<rparr>]" and w_emb = 4 and em = "''bge''" and w_index = 5, THEN conjunct2, THEN conjunct2, THEN conjunct2, THEN conjunct1, THEN mp, OF h4, THEN conjunct2]
  have h5:
    "load_and_split (failing_env 5) ''./pdf/a.pdf'' (world (start 1)) = (Inr [\<lparr> page_content = ''hello world'', metadata = [] \<rparr>], 2) \<and>
     split_documents (failing_env 5) \<lparr> chunk_size = 500, chunk_overlap = 200 \<rparr> [\<lparr> page_content = ''hello world'', metadata = [] \<rparr>] 2 = (Inr [\<lparr> page_content = ''hello world'', metadata = [] \<rparr>], 3) \<and>
     [\<lparr> page_content = ''hello world'', metadata = [] \<rparr>] \<noteq> [] \<and>
     hf_embeddings (failing_env 5) ''bge'' 3 = (Inr ''bge'', 4) \<and>
     faiss_from_texts (failing_env 5) (map page_content [\<lparr> page_content = ''hello world'', metadata = [] \<rparr>]) ''bge'' 4 = (Inr [''hello world''], 5) \<and>
     retrieval_qa (failing_env 5) ''llm'' [''hello world''] build_prompt False 5 = (Inl (Exception ''chain not built''), 6)"
    by code_simp
  note s5 = per_document_failure_isolation
    [where E = "failing_env 5" and s = "start 1" and path = "''./pdf/a.pdf''" and m = "''chain not built''" and q = "Some ''What?''" and llm = "''llm''" and emb = "''bge''" and pr = build_prompt and v = False and rest = "[''./pdf/c.pdf'']" and w_load = 2 and pages = "[\<lparr> page_content = ''hello world'', metadata = [] \<rparr>]" and w_split = 3 and texts = "[\<lparr> page_content = ''hello world'', metadata = [] \<rparr>]" and w_emb = 4 and em = "''bge''" and w_index = 5 and db = "[''hello world'']" and w_chain = 6, THEN conjunct2, THEN conjunct2, THEN conjunct2, THEN conjunct2, THEN conjunct1, THEN mp, OF h5, THEN conjunct2]
  have h6:
    "load_and_split (failing_env 6) ''./pdf/a.pdf'' (world (start 1)) = (Inr [\<lparr> page_content = ''hello world'', metadata = [] \<rparr>], 2) \<and>
     split_documents (failing_env 6) \<lparr> chunk_size = 500, chunk_overlap = 200 \<rparr> [\<lparr> page_content = ''hello world'', metadata = [] \<rparr>] 2 = (Inr [\<lparr> page_content = ''hello world'', metadata = [] \<rparr>], 3) \<and>
     [\<lparr> page_content = ''hello world'', metadata = [] \<rparr>] \<noteq> [] \<and>
     hf_embeddings (failing_env 6) ''bge'' 3 = (Inr ''bge'', 4) \<and>
     faiss_from_texts (failing_env 6) (map page_content [\<lparr> page_content = ''hello world'', metadata = [] \<rparr>]) ''bge'' 4 = (Inr [''hello world''], 5) \<and>
     retrieval_qa (failing_env 6) ''llm'' [''hello world''] build_prompt False 5 = (Inr ''llm'', 6) \<and>
     invoke (failing_env 6) ''llm'' (Some ''What?'') 6 = (Inl (Exception ''context window exceeded''), 7)"
    by code_simp
  note s6 = per_document_failure_isolation
    [where E = "failing_env 6" and s = "start 1" and path = "''./pdf/a.pdf''" and m = "''context window exceeded''" and q = "Some ''What?''" and llm = "''llm''" and emb = "''bge''" and pr = build_prompt and v = False and rest = "[''./pdf/c.pdf'']" and w_load = 2 and pages = "[\<lparr> page_content = ''hello world'', metadata = [] \<rparr>]" and w_split = 3 and texts = "[\<lparr> page_content = ''hello world'', metadata = [] \<rparr>]" and w_emb = 4 and em = "''bge''" and w_index = 5 and db = "[''hello world'']" and w_chain = 6 and rag = "''llm''" and w_gen = 7, THEN conjunct2, THEN conjunct2, THEN conjunct2, THEN conjunct2, THEN conjunct2, THEN conjunct1, THEN mp, OF h6, THEN conjunct2]
  have r: "raises_only_exceptions (failing_env 6)"
    by (simp add: raises_only_exceptions_def failing_env_def)
  have p: "parse_args Map.empty demo_cli = Inr demo_args" by code_simp
  have va: "fst (validate_inputs (failing_env 6) (model_path demo_args) (pdf_dir demo_args)
                   (question demo_args) (start 0)) = Inr ()"
    by code_simp
  have l: "fst (llama_cpp (failing_env 6) (model_path demo_args) (n_ctx demo_args)
                  (verbose demo_args) 0) = Inr ''llm''"
    by code_simp
  note s7 = per_document_failure_isolation
    [where E = "failing_env 6" and environ = Map.empty and c = demo_cli and a = demo_args
       and w = 0 and llm = "''llm''",
     THEN conjunct2, THEN conjunct2, THEN conjunct2, THEN conjunct2, THEN conjunct2,
     THEN conjunct2, THEN mp, OF conjI [OF r conjI [OF p conjI [OF va l]]]]
  from s1 s2 s3 s4 s5 s6 s7 show ?thesis
    by (simp add: start_def)
qed

text \<open>
  Claim C2, as stated, fails: the embedding model is loaded inside the \<^verbatim>\<open>try\<close>
  statement of each document. In the run below the load fails for \<^verbatim>\<open>a.pdf\<close>; the
  failure is printed, \<^verbatim>\<open>c.pdf\<close> is processed next (and fails the same way), and
  \<^verbatim>\<open>main\<close> returns.
\<close>

theorem embedding_failure_counterexample:
  "trace (snd (main no_embeddings_env Map.empty demo_cli (start 0))) =
     [Call (LlamaCpp (Some ''/models/m.gguf'') 4096 False),
      Print Header (header ''./pdf/a.pdf''),
      Call (PyPDFLoader ''./pdf/a.pdf''),
      Call (SplitDocuments \<lparr> chunk_size = 500, chunk_overlap = 200 \<rparr>),
      Call (HuggingFaceEmbeddings ''BAAI/bge-small-en-v1.5''),
      Print Failure ''Failed to process ./pdf/a.pdf: model not found'',
      Print Header (header ''./pdf/c.pdf''),
      Call (PyPDFLoader ''./pdf/c.pdf''),
      Call (SplitDocuments \<lparr> chunk_size = 500, chunk_overlap = 200 \<rparr>),
      Call (HuggingFaceEmbeddings ''BAAI/bge-small-en-v1.5''),
      Print Failure ''Failed to process ./pdf/c.pdf: model not found''] \<and>
   fst (main no_embeddings_env Map.empty demo_cli (start 0)) = Inr ()"
  by code_simp

text \<open>
  Claim C2, amended. A failure to load the embedding model is confined to the document
  being processed: when extraction gave chunks and the load raises an instance of
  \<^verbatim>\<open>Exception\<close>, the line \<^verbatim>\<open>Failed to process <path>: <error>\<close> is printed and
  the loop goes on with the next document.
\<close>

theorem embedding_failure_is_per_document:
  assumes "extract_text_chunks_from_pdf E path (print Header (header path) s) = (Inr chunks, s1)"
      and "chunks \<noteq> []"
      and "hf_embeddings E emb (world s1) = (Inl (Exception m), w2)"
  shows "for_paths E q llm emb pr v (path # rest) s =
           for_paths E q llm emb pr v rest
             \<lparr> world = w2,
               trace = trace s1 @ [Call (HuggingFaceEmbeddings emb),
                                   Print Failure (''Failed to process '' @ path @ '': '' @ m)] \<rparr>"
  using assms
  by (simp add: run_rag_over_pdf_def try_body_def call_eq print_def failed_line_def)

theorem embedding_failure_is_per_document_witness:
  "for_paths no_embeddings_env (Some ''What?'') ''llm'' ''bge'' build_prompt False
     [''./pdf/a.pdf'', ''./pdf/c.pdf''] (start 1) =
   for_paths no_embeddings_env (Some ''What?'') ''llm'' ''bge'' build_prompt False
     [''./pdf/c.pdf'']
     \<lparr> world = 4,
       trace = [Print Header (header ''./pdf/a.pdf''), Call (PyPDFLoader ''./pdf/a.pdf''),
                Call (SplitDocuments \<lparr> chunk_size = 500, chunk_overlap = 200 \<rparr>),
                Call (HuggingFaceEmbeddings ''bge''),
                Print Failure ''Failed to process ./pdf/a.pdf: model not found''] \<rparr>"
proof -
  have h1: "extract_text_chunks_from_pdf no_embeddings_env ''./pdf/a.pdf''
              (print Header (header ''./pdf/a.pdf'') (start 1)) =
            (Inr [''hello world''],
             \<lparr> world = 3,
               trace = [Print Header (header ''./pdf/a.pdf''), Call (PyPDFLoader ''./pdf/a.pdf''),
                        Call (SplitDocuments \<lparr> chunk_size = 500, chunk_overlap = 200 \<rparr>)] \<rparr>)"
    by code_simp
  have h2: "[''hello world''] \<noteq> []" by simp
  have h3: "hf_embeddings no_embeddings_env ''bge''
              (world \<lparr> world = 3,
               trace = [Print Header (header ''./pdf/a.pdf''), Call (PyPDFLoader ''./pdf/a.pdf''),
                        Call (SplitDocuments \<lparr> chunk_size = 500, chunk_overlap = 200 \<rparr>)] \<rparr>) =
            (Inl (Exception ''model not found''), 4)"
    by code_simp
  from embedding_failure_is_per_document[OF h1 h2 h3] show ?thesis by simp
qed

text \<open>
  Claim C7. When extraction yields no chunk for a file, \<^verbatim>\<open>run_rag_over_pdf\<close> returns
  normally after printing \<^verbatim>\<open>No text extracted; skipping.\<close>; what the step adds to the
  trace is the header, the two calls of extraction and the notice, so the embedding model
  is not loaded and no failure line is printed; the loop goes on with the next file.
\<close>

theorem empty_extraction_is_skipped:
  assumes "extract_text_chunks_from_pdf E path (print Header (header path) s) = (Inr [], s1)"
  shows "run_rag_over_pdf E path q llm emb pr v s =
           (Inr (), print SkipNotice ''No text extracted; skipping.'' s1) \<and>
         trace (print SkipNotice ''No text extracted; skipping.'' s1) =
           trace s @ [Print Header (header path), Call (PyPDFLoader path),
                      Call (SplitDocuments (RecursiveCharacterTextSplitter 500 200)),
                      Print SkipNotice ''No text extracted; skipping.''] \<and>
         for_paths E q llm emb pr v (path # rest) s =
           for_paths E q llm emb pr v rest (print SkipNotice ''No text extracted; skipping.'' s1)"
proof -
  have step: "run_rag_over_pdf E path q llm emb pr v s =
           (Inr (), print SkipNotice ''No text extracted; skipping.'' s1)"
    using assms by (simp add: run_rag_over_pdf_def try_body_def)
  from assms have "trace s1 =
           trace s @ [Print Header (header path), Call (PyPDFLoader path),
                      Call (SplitDocuments (RecursiveCharacterTextSplitter 500 200))]"
    by (auto simp: extract_text_chunks_from_pdf_def call_eq trace_print Let_def
             split: sum.splits prod.splits)
  with step show ?thesis by (simp add: trace_print)
qed

theorem empty_extraction_is_skipped_witness:
  "for_paths demo_env (Some ''What?'') ''llm'' ''bge'' build_prompt False
     [''./pdf/scan.pdf'', ''./pdf/sub/a.pdf''] (start 1) =
   for_paths demo_env (Some ''What?'') ''llm'' ''bge'' build_prompt False
     [''./pdf/sub/a.pdf'']
     \<lparr> world = 3,
       trace = [Print Header (header ''./pdf/scan.pdf''), Call (PyPDFLoader ''./pdf/scan.pdf''),
                Call (SplitDocuments \<lparr> chunk_size = 500, chunk_overlap = 200 \<rparr>),
                Print SkipNotice ''No text extracted; skipping.''] \<rparr>"
proof -
  have h: "extract_text_chunks_from_pdf demo_env ''./pdf/scan.pdf''
              (print Header (header ''./pdf/scan.pdf'') (start 1)) =
            (Inr [],
             \<lparr> world = 3,
               trace = [Print Header (header ''./pdf/scan.pdf''),
                        Call (PyPDFLoader ''./pdf/scan.pdf''),
                        Call (SplitDocuments \<lparr> chunk_size = 500, chunk_overlap = 200 \<rparr>)] \<rparr>)"
    by code_simp
  from empty_extraction_is_skipped[OF h] show ?thesis by (simp add: print_def)
qed

subsection \<open>Extraction\<close>

text \<open>
  What \<^verbatim>\<open>extract_text_chunks_from_pdf\<close> fixes of the chunking: every page the loader
  returns goes to \<^verbatim>\<open>RecursiveCharacterTextSplitter\<close> with chunk size 500 and overlap
  200, and the chunks are the contents of what the splitter returns, in order. How the
  splitter chooses its cuts is the library's matter.
\<close>

lemma pieces_length: "t' \<in> set (pieces fuel n t) \<Longrightarrow> length t' \<le> n"
  by (induction fuel n t rule: pieces.induct) (auto split: if_splits)

lemma respects_chunk_size_demo_env: "respects_chunk_size demo_env"
  by (auto simp: respects_chunk_size_def demo_env_def demo_split_def list_all_iff pieces_length)

lemma chunking_policy:
  assumes "load_and_split E pdf_path (world s) = (Inr pages, w1)"
  shows "extract_text_chunks_from_pdf E pdf_path s =
           (map_sum id (map page_content)
              (fst (split_documents E \<lparr> chunk_size = 500, chunk_overlap = 200 \<rparr> pages w1)),
            \<lparr> world = snd (split_documents E \<lparr> chunk_size = 500, chunk_overlap = 200 \<rparr> pages w1),
              trace = trace s @ [Call (PyPDFLoader pdf_path),
                                 Call (SplitDocuments \<lparr> chunk_size = 500, chunk_overlap = 200 \<rparr>)] \<rparr>) \<and>
         (respects_chunk_size E \<longrightarrow>
            (\<forall>chunks s'. extract_text_chunks_from_pdf E pdf_path s = (Inr chunks, s') \<longrightarrow>
                          (\<forall>c \<in> set chunks. length c \<le> 500)))"
proof -
  let ?ts = "\<lparr> chunk_size = 500, chunk_overlap = 200 \<rparr>"
  have eq: "extract_text_chunks_from_pdf E pdf_path s =
           (map_sum id (map page_content) (fst (split_documents E ?ts pages w1)),
            \<lparr> world = snd (split_documents E ?ts pages w1),
              trace = trace s @ [Call (PyPDFLoader pdf_path), Call (SplitDocuments ?ts)] \<rparr>)"
    using assms
    by (auto simp: extract_text_chunks_from_pdf_def call_eq RecursiveCharacterTextSplitter_def
               Let_def
             split: sum.splits)
  have bound: "\<forall>c \<in> set chunks. length c \<le> 500"
    if r: "respects_chunk_size E" and e: "extract_text_chunks_from_pdf E pdf_path s = (Inr chunks, s')"
    for chunks s'
  proof -
    from e eq obtain texts where t: "fst (split_documents E ?ts pages w1) = Inr texts"
      "chunks = map page_content texts"
      by (cases "fst (split_documents E ?ts pages w1)") auto
    from r have "case fst (split_documents E ?ts pages w1) of
                  Inl e \<Rightarrow> True
                | Inr texts \<Rightarrow> list_all (\<lambda>d. length (page_content d) \<le> chunk_size ?ts) texts"
      unfolding respects_chunk_size_def by blast
    with t show ?thesis by (auto simp: list_all_iff)
  qed
  from eq bound show ?thesis by blast
qed

lemma chunking_policy_example:
  "extract_text_chunks_from_pdf demo_env ''./pdf/sub/a.pdf'' (start 1) =
     (Inr [''hello world''],
      \<lparr> world = 3,
        trace = [Call (PyPDFLoader ''./pdf/sub/a.pdf''),
                 Call (SplitDocuments \<lparr> chunk_size = 500, chunk_overlap = 200 \<rparr>)] \<rparr>) \<and>
   length ''hello world'' \<le> 500"
proof -
  have h: "load_and_split demo_env ''./pdf/sub/a.pdf'' (world (start 1)) =
             (Inr [\<lparr> page_content = ''hello world'', metadata = [] \<rparr>], 2)"
    by code_simp
  have e: "extract_text_chunks_from_pdf demo_env ''./pdf/sub/a.pdf'' (start 1) =
     (Inr [''hello world''],
      \<lparr> world = 3,
        trace = [Call (PyPDFLoader ''./pdf/sub/a.pdf''),
                 Call (SplitDocuments \<lparr> chunk_size = 500, chunk_overlap = 200 \<rparr>)] \<rparr>)"
    by code_simp
  from chunking_policy[OF h] respects_chunk_size_demo_env e show ?thesis
    by auto
qed

subsection \<open>Document discovery\<close>

lemma lower_char_eq_iff:
  "lower_char c = d \<longleftrightarrow>
     (if 65 \<le> (of_char c :: nat) \<and> (of_char c :: nat) \<le> 90
      then of_char c + 32 = (of_char d :: nat) else c = d)"
proof -
  have "take_bit 8 (of_char c + 32 :: nat) = of_char c + 32" if "(of_char c :: nat) \<le> 90"
    using that by (intro take_bit_nat_eq_self) simp
  then show ?thesis
    by (auto simp: lower_char_def less_eq_char_def char_of_eq_iff)
qed

lemma lower_char_letter:
  assumes "(of_char l :: nat) = of_char u + 32"
      and "65 \<le> (of_char u :: nat)" and "(of_char u :: nat) \<le> 90"
  shows "lower_char c = l \<longleftrightarrow> c = l \<or> c = u"
proof (cases "65 \<le> (of_char c :: nat) \<and> (of_char c :: nat) \<le> 90")
  case True
  with assms have "c \<noteq> l" by auto
  moreover have "(of_char c :: nat) + 32 = of_char l \<longleftrightarrow> (of_char c :: nat) = of_char u"
    by (simp add: assms(1))
  then have "(of_char c :: nat) + 32 = of_char l \<longleftrightarrow> c = u"
    by (simp only: of_char_eq_iff)
  ultimately show ?thesis using True by (simp add: lower_char_eq_iff)
next
  case False
  with assms have "c \<noteq> u" by auto
  with False show ?thesis by (auto simp: lower_char_eq_iff)
qed

lemma lower_char_other:
  assumes "(of_char d :: nat) < 97 \<or> 122 < (of_char d :: nat)"
      and "(of_char d :: nat) < 65 \<or> 90 < (of_char d :: nat)"
  shows "lower_char c = d \<longleftrightarrow> c = d"
  using assms by (auto simp: lower_char_eq_iff)

lemma lower_char_dot: "lower_char c = CHR ''.'' \<longleftrightarrow> c = CHR ''.''"
  by (rule lower_char_other) simp_all

lemma lower_char_p: "lower_char c = CHR ''p'' \<longleftrightarrow> c = CHR ''p'' \<or> c = CHR ''P''"
  by (rule lower_char_letter) simp_all

lemma lower_char_d: "lower_char c = CHR ''d'' \<longleftrightarrow> c = CHR ''d'' \<or> c = CHR ''D''"
  by (rule lower_char_letter) simp_all

lemma lower_char_f: "lower_char c = CHR ''f'' \<longleftrightarrow> c = CHR ''f'' \<or> c = CHR ''F''"
  by (rule lower_char_letter) simp_all

lemma endswith_iff: "endswith s sfx \<longleftrightarrow> (\<exists>stem. s = stem @ sfx)"
proof
  assume "endswith s sfx"
  then have "s = take (length s - length sfx) s @ sfx"
    by (metis append_take_drop_id endswith_def)
  then show "\<exists>stem. s = stem @ sfx" ..
next
  assume "\<exists>stem. s = stem @ sfx"
  then show "endswith s sfx" by (auto simp: endswith_def)
qed

lemma map_ends_iff:
  "(\<exists>pre. map f xs = pre @ sfx) \<longleftrightarrow> (\<exists>stem ext. xs = stem @ ext \<and> map f ext = sfx)"
proof
  assume "\<exists>pre. map f xs = pre @ sfx"
  then obtain pre where "map f xs = pre @ sfx" ..
  then obtain us vs where "xs = us @ vs \<and> map f vs = sfx"
    unfolding map_eq_append_conv by auto
  then show "\<exists>stem ext. xs = stem @ ext \<and> map f ext = sfx" by (intro exI)
next
  assume "\<exists>stem ext. xs = stem @ ext \<and> map f ext = sfx"
  then obtain stem ext where "xs = stem @ ext" "map f ext = sfx" by blast
  then have "map f xs = map f stem @ sfx" by simp
  then show "\<exists>pre. map f xs = pre @ sfx" ..
qed

lemma map_eq_four:
  "map f xs = [a, b, c, d] \<longleftrightarrow>
     (\<exists>w x y z. xs = [w, x, y, z] \<and> f w = a \<and> f x = b \<and> f y = c \<and> f z = d)"
proof (cases xs)
  case Nil then show ?thesis by simp
next
  case (Cons w xs1)
  show ?thesis
  proof (cases xs1)
    case Nil with Cons show ?thesis by simp
  next
    case (Cons x xs2)
    note c2 = this
    show ?thesis
    proof (cases xs2)
      case Nil with \<open>xs = w # xs1\<close> c2 show ?thesis by simp
    next
      case (Cons y xs3)
      note c3 = this
      show ?thesis
      proof (cases xs3)
        case Nil with \<open>xs = w # xs1\<close> c2 c3 show ?thesis by simp
      next
        case (Cons z xs4)
        with \<open>xs = w # xs1\<close> c2 c3 show ?thesis by (cases xs4) auto
      qed
    qed
  qed
qed

lemma is_pdf_name_iff:
  "is_pdf_name name \<longleftrightarrow>
     (\<exists>stem c1 c2 c3. name = stem @ [CHR ''.'', c1, c2, c3] \<and>
        (c1 = CHR ''p'' \<or> c1 = CHR ''P'') \<and>
        (c2 = CHR ''d'' \<or> c2 = CHR ''D'') \<and>
        (c3 = CHR ''f'' \<or> c3 = CHR ''F''))"
proof -
  have "is_pdf_name name \<longleftrightarrow> (\<exists>pre. map lower_char name = pre @ ''.pdf'')"
    by (simp add: is_pdf_name_def lower_def endswith_iff)
  also have "\<dots> \<longleftrightarrow> (\<exists>stem ext. name = stem @ ext \<and> map lower_char ext = ''.pdf'')"
    by (rule map_ends_iff)
  also have "\<dots> \<longleftrightarrow> (\<exists>stem c0 c1 c2 c3. name = stem @ [c0, c1, c2, c3] \<and>
        lower_char c0 = CHR ''.'' \<and> lower_char c1 = CHR ''p'' \<and>
        lower_char c2 = CHR ''d'' \<and> lower_char c3 = CHR ''f'')"
    unfolding map_eq_four by blast
  also have "\<dots> \<longleftrightarrow> (\<exists>stem c1 c2 c3. name = stem @ [CHR ''.'', c1, c2, c3] \<and>
        (c1 = CHR ''p'' \<or> c1 = CHR ''P'') \<and>
        (c2 = CHR ''d'' \<or> c2 = CHR ''D'') \<and>
        (c3 = CHR ''f'' \<or> c3 = CHR ''F''))"
    unfolding lower_char_dot lower_char_p lower_char_d lower_char_f by blast
  finally show ?thesis .
qed

lemma set_discover:
  "set (discover ts) =
     {path_join d n | d ds fs n. (d, ds, fs) \<in> set ts \<and> n \<in> set fs \<and> is_pdf_name n}"
  by (auto simp: discover_def)

lemma main_headers:
  assumes "raises_only_exceptions E"
      and "parse_args environ c = Inr a"
      and "fst (validate_inputs E (model_path a) (pdf_dir a) (question a) (start w)) = Inr ()"
      and "llama_cpp E (model_path a) (n_ctx a) (verbose a) w = (Inr llm, w1)"
  shows "printed Header (trace (snd (main E environ c (start w)))) =
           map header (sort (discover (walk E (pdf_dir a) w1)))"
proof (cases "sort (discover (walk E (pdf_dir a) w1)) = []")
  case True
  with assms(4) show ?thesis
    by (simp add: main_after_validation[OF assms(2,3)])
next
  case False
  let ?s2 = "\<lparr> world = w1, trace = [Call (LlamaCpp (model_path a) (n_ctx a) (verbose a))] \<rparr>"
  let ?paths = "sort (discover (walk E (pdf_dir a) w1))"
  let ?loop = "for_paths E (question a) llm (embedding_model a) build_prompt (verbose a)
                 ?paths ?s2"
  from for_paths_headers[OF assms(1), of "question a" llm "embedding_model a" build_prompt
      "verbose a" ?paths ?s2]
  have h: "printed Header (trace (snd ?loop)) = map header ?paths"
    by simp
  from assms(4) False have "trace (snd (main E environ c (start w))) = trace (snd ?loop)"
    by (simp add: main_after_validation[OF assms(2,3)] split: prod.splits sum.splits)
  with h show ?thesis by simp
qed

text \<open>
  Claim C5. In a run that passes validation and loads the generation model, with
  collaborators that raise instances of \<^verbatim>\<open>Exception\<close> only, the headers printed are
  exactly the texts \<^verbatim>\<open>Processing File: <path>\<close> (each after a line break, as the
  source prints it) for the discovered paths in sorted order, one header per path. The
  discovered paths are the joins of directory and name for the names \<^verbatim>\<open>os.walk\<close>
  reports under the root whose last four characters are \<^verbatim>\<open>.pdf\<close> in any mix of
  upper and lower case; sorting keeps each of them, as often as it was found.
\<close>

theorem document_discovery:
  assumes "raises_only_exceptions E"
      and "parse_args environ c = Inr a"
      and "fst (validate_inputs E (model_path a) (pdf_dir a) (question a) (start w)) = Inr ()"
      and "llama_cpp E (model_path a) (n_ctx a) (verbose a) w = (Inr llm, w1)"
  shows "printed Header (trace (snd (main E environ c (start w)))) =
           map (\<lambda>p. CHR 0x0A # ''Processing File: '' @ p)
             (sort (discover (walk E (pdf_dir a) w1))) \<and>
         sorted (sort (discover (walk E (pdf_dir a) w1))) \<and>
         mset (sort (discover (walk E (pdf_dir a) w1))) = mset (discover (walk E (pdf_dir a) w1)) \<and>
         set (discover (walk E (pdf_dir a) w1)) =
           {path_join d n | d ds fs n.
              (d, ds, fs) \<in> set (walk E (pdf_dir a) w1) \<and> n \<in> set fs \<and>
              (\<exists>stem c1 c2 c3. n = stem @ [CHR ''.'', c1, c2, c3] \<and>
                 (c1 = CHR ''p'' \<or> c1 = CHR ''P'') \<and>
                 (c2 = CHR ''d'' \<or> c2 = CHR ''D'') \<and>
                 (c3 = CHR ''f'' \<or> c3 = CHR ''F''))}"
proof -
  have "header = (\<lambda>p. CHR 0x0A # ''Processing File: '' @ p)"
    by (rule ext) (simp add: header_def)
  with main_headers[OF assms]
  have "printed Header (trace (snd (main E environ c (start w)))) =
           map (\<lambda>p. CHR 0x0A # ''Processing File: '' @ p)
             (sort (discover (walk E (pdf_dir a) w1)))"
    by simp
  moreover have "sorted (sort (discover (walk E (pdf_dir a) w1)))" by simp
  moreover have "mset (sort (discover (walk E (pdf_dir a) w1))) =
                   mset (discover (walk E (pdf_dir a) w1))"
    by simp
  moreover have "set (discover (walk E (pdf_dir a) w1)) =
           {path_join d n | d ds fs n.
              (d, ds, fs) \<in> set (walk E (pdf_dir a) w1) \<and> n \<in> set fs \<and>
              (\<exists>stem c1 c2 c3. n = stem @ [CHR ''.'', c1, c2, c3] \<and>
                 (c1 = CHR ''p'' \<or> c1 = CHR ''P'') \<and>
                 (c2 = CHR ''d'' \<or> c2 = CHR ''D'') \<and>
                 (c3 = CHR ''f'' \<or> c3 = CHR ''F''))}"
    unfolding set_discover is_pdf_name_iff ..
  ultimately show ?thesis by (intro conjI)
qed

theorem document_discovery_witness:
  "printed Header (trace (snd (main demo_env Map.empty demo_cli (start 0)))) =
     [CHR 0x0A # ''Processing File: ./pdf/b.PDF'',
      CHR 0x0A # ''Processing File: ./pdf/scan.pdf'',
      CHR 0x0A # ''Processing File: ./pdf/sub/a.pdf'']"
proof -
  have h0: "raises_only_exceptions demo_env"
    by (simp add: raises_only_exceptions_def demo_env_def)
  have h1: "parse_args Map.empty demo_cli = Inr demo_args" by code_simp
  have h2: "fst (validate_inputs demo_env (model_path demo_args) (pdf_dir demo_args)
                   (question demo_args) (start 0)) = Inr ()"
    by code_simp
  have h3: "llama_cpp demo_env (model_path demo_args) (n_ctx demo_args) (verbose demo_args) 0 =
              (Inr ''llm'', 1)"
    by code_simp
  have s: "sort (discover (walk demo_env (pdf_dir demo_args) 1)) =
             [''./pdf/b.PDF'', ''./pdf/scan.pdf'', ''./pdf/sub/a.pdf'']"
    by code_simp
  from document_discovery[OF h0 h1 h2 h3] s show ?thesis by simp
qed

end
